theory Spec2Isabelle
  imports Complex_Main "HOL-Library.Sublist" "HOL-Library.Word"
begin

section \<open>JavaScript values used by the detection engine\<close>

subsection \<open>Property lookup on object literals\<close>

text \<open>
  The tables of \<^verbatim>\<open>detection.js\<close> (\<^verbatim>\<open>EMOTION_ALIASES\<close>, \<^verbatim>\<open>stressScores\<close>,
  \<^verbatim>\<open>featureLevelScores\<close>, \<^verbatim>\<open>EMOTIONS\<close>) are object literals, read with
  \<^verbatim>\<open>table[key]\<close>. Such a read first looks at the literal's own properties and then at
  \<^verbatim>\<open>Object.prototype\<close>, whose properties are functions (and, for \<^verbatim>\<open>__proto__\<close>, the
  prototype object itself): all of them truthy values that are not strings.
\<close>

definition OBJECT_PROTOTYPE_KEYS :: "string list" where
  "OBJECT_PROTOTYPE_KEYS =
     [''constructor'', ''__defineGetter__'', ''__defineSetter__'', ''hasOwnProperty'',
      ''__lookupGetter__'', ''__lookupSetter__'', ''isPrototypeOf'', ''propertyIsEnumerable'',
      ''toString'', ''valueOf'', ''__proto__'', ''toLocaleString'']"

text \<open>The outcome of \<^verbatim>\<open>table[key]\<close>: an own property, an inherited one, or \<^verbatim>\<open>undefined\<close>.\<close>

datatype 'a lookup = Own 'a | Inherited string | Undefined

definition js_get :: "(string \<times> 'a) list \<Rightarrow> string \<Rightarrow> 'a lookup" where
  "js_get table key =
     (case map_of table key of
        Some v \<Rightarrow> Own v
      | None \<Rightarrow> if key \<in> set OBJECT_PROTOTYPE_KEYS then Inherited key else Undefined)"

subsection \<open>Binary64 numbers\<close>

text \<open>
  A JavaScript number is an IEEE-754 binary64 value. \<open>Double m e\<close> stands for the number
  \<open>m * 2 ^ e\<close>; an arithmetic operation computes the exact result and rounds it once to
  53 significant bits, ties to the even mantissa. Overflow, subnormal numbers, infinities
  and the sign of zero are outside this model; they do not arise from the numbers it is
  used on, which are small integers, their quotients, and sums, differences and products of
  a few of these.
\<close>

datatype double = Double (mant: int) (expo: int)

definition dval :: "double \<Rightarrow> rat" where
  "dval d = of_int (mant d) * 2 powi expo d"

text \<open>The number of binary digits of a positive integer.\<close>

function bits :: "int \<Rightarrow> nat" where
  "bits n = (if n \<le> 0 then 0 else Suc (bits (n div 2)))"
  by pat_completeness auto
termination
  by (relation "measure nat") auto

declare bits.simps [simp del]

text \<open>\<open>round53 m e\<close>: the binary64 value nearest to the exact number \<open>m * 2 ^ e\<close>.\<close>

definition round53 :: "int \<Rightarrow> int \<Rightarrow> double" where
  "round53 m e =
     (let a = \<bar>m\<bar>; w = bits a in
      if w \<le> 53 then Double m e
      else
        let k = w - 53;
            q = a div 2 ^ k;
            r = a mod 2 ^ k;
            h = 2 ^ (k - 1);
            q' = (if r < h then q else if h < r then q + 1 else if even q then q else q + 1)
        in Double (sgn m * q') (e + int k))"

definition of_integer :: "int \<Rightarrow> double" where
  "of_integer n = round53 n 0"

text \<open>JavaScript \<^verbatim>\<open>x + y\<close> on numbers.\<close>

definition dadd :: "double \<Rightarrow> double \<Rightarrow> double" where
  "dadd x y =
     (let e = min (expo x) (expo y)
      in round53 (mant x * 2 ^ nat (expo x - e) + mant y * 2 ^ nat (expo y - e)) e)"

text \<open>JavaScript \<^verbatim>\<open>x - y\<close> and \<^verbatim>\<open>x * y\<close> on numbers.\<close>

definition dsub :: "double \<Rightarrow> double \<Rightarrow> double" where
  "dsub x y = dadd x (Double (- mant y) (expo y))"

definition dmul :: "double \<Rightarrow> double \<Rightarrow> double" where
  "dmul x y = round53 (mant x * mant y) (expo x + expo y)"

text \<open>
  \<open>round_quot p q\<close>: the binary64 value nearest to the fraction \<open>p / q\<close>, for
  \<open>p \<ge> 0\<close> and \<open>q > 0\<close>. The quotient is taken with at least 55 bits, its last bit
  made sticky by the remainder, so that the single rounding of \<open>round53\<close> is correct
  (the subtraction in \<open>s\<close> is that of natural numbers, which stops at 0).
  A decimal literal \<^verbatim>\<open>0.3\<close> denotes \<open>round_quot 3 10\<close>.
\<close>

definition round_quot :: "int \<Rightarrow> int \<Rightarrow> double" where
  "round_quot p q =
     (let s = 55 + bits q - bits p;
          n = p * 2 ^ s;
          t = 2 * (n div q) + (if n mod q = 0 then 0 else 1)
      in round53 t (- int s - 1))"

text \<open>
  \<^verbatim>\<open>Math.round(x)\<close>: the integer nearest to \<open>x\<close>, a tie going to the larger one; it is
  computed on the exact value of \<open>x\<close>.
\<close>

definition Math_round :: "double \<Rightarrow> int" where
  "Math_round d =
     (if 0 \<le> expo d then mant d * 2 ^ nat (expo d)
      else (2 * mant d + 2 ^ nat (- expo d)) div 2 ^ (nat (- expo d) + 1))"

section \<open>Relief urgency\<close>

text \<open>
  \<^verbatim>\<open>
  function calculateReliefUrgency(stressLevel, emotion, eyeStrain, browTension, facialFatigue) {
      let urgency = 1;
      const stressScores = { 'Low': 2, 'Medium': 5, 'High': 8 };
      urgency = stressScores[stressLevel] || 5;
      const highStressEmotions = ['Angry', 'Fearful', 'Sad', 'Disgusted'];
      if (highStressEmotions.includes(emotion)) { urgency += 1; }
      const featureLevelScores = { 'Normal': 0, 'Mild': 0.3, 'Moderate': 0.6, 'High': 0.9, 'Severe': 1.2 };
      urgency += featureLevelScores[eyeStrain] || 0;
      urgency += featureLevelScores[browTension] || 0;
      urgency += featureLevelScores[facialFatigue] || 0;
      return Math.max(1, Math.min(10, Math.round(urgency)));
  }
  \<close>
\<close>

definition FEATURE_LEVELS :: "string list" where
  "FEATURE_LEVELS = [''Normal'', ''Mild'', ''Moderate'', ''High'', ''Severe'']"

definition stressScores :: "(string \<times> double) list" where
  "stressScores = [(''Low'', of_integer 2), (''Medium'', of_integer 5), (''High'', of_integer 8)]"

definition highStressEmotions :: "string list" where
  "highStressEmotions = [''Angry'', ''Fearful'', ''Sad'', ''Disgusted'']"

definition featureLevelScores :: "(string \<times> double) list" where
  "featureLevelScores =
     [(''Normal'', of_integer 0), (''Mild'', round_quot 3 10), (''Moderate'', round_quot 6 10),
      (''High'', round_quot 9 10), (''Severe'', round_quot 12 10)]"

text \<open>
  An integer-valued property of a result: an integer, \<^verbatim>\<open>NaN\<close>, or the \<^verbatim>\<open>null\<close> that
  JSON writes in place of \<^verbatim>\<open>NaN\<close>.
\<close>

datatype jsint = Num int | NaN | Null

text \<open>
  \<^verbatim>\<open>stressScores[stressLevel] || 5\<close> and \<^verbatim>\<open>featureLevelScores[x] || 0\<close>: an own entry
  gives its number (the falsy \<open>0\<close> of \<^verbatim>\<open>Normal\<close> is replaced by the default \<open>0\<close>), a
  missing key gives the default, and an inherited property gives a function object, which
  is truthy: \<^verbatim>\<open>urgency\<close> is then no number, the later \<^verbatim>\<open>+=\<close> concatenate strings and
  \<^verbatim>\<open>Math.round\<close> returns \<^verbatim>\<open>NaN\<close>, which \<^verbatim>\<open>Math.min\<close> and \<^verbatim>\<open>Math.max\<close> keep.
\<close>

definition score_or :: "(string \<times> double) list \<Rightarrow> string \<Rightarrow> double \<Rightarrow> double option" where
  "score_or table key dflt =
     (case js_get table key of
        Own v \<Rightarrow> Some v
      | Undefined \<Rightarrow> Some dflt
      | Inherited _ \<Rightarrow> None)"

definition calculateReliefUrgency :: "string \<Rightarrow> string \<Rightarrow> string \<Rightarrow> string \<Rightarrow> string \<Rightarrow> jsint" where
  "calculateReliefUrgency stressLevel emotion eyeStrain browTension facialFatigue =
     (case (score_or stressScores stressLevel (of_integer 5),
            score_or featureLevelScores eyeStrain (of_integer 0),
            score_or featureLevelScores browTension (of_integer 0),
            score_or featureLevelScores facialFatigue (of_integer 0)) of
        (Some base, Some s1, Some s2, Some s3) \<Rightarrow>
          (let urgency = base;
               urgency = (if emotion \<in> set highStressEmotions
                          then dadd urgency (of_integer 1) else urgency);
               urgency = dadd urgency s1;
               urgency = dadd urgency s2;
               urgency = dadd urgency s3
           in Num (max 1 (min 10 (Math_round urgency))))
      | _ \<Rightarrow> NaN)"







section \<open>Emotion vocabulary\<close>

text \<open>
  \<^verbatim>\<open>
  const EMOTIONS = {
      'Neutral': { weight: 0.2, stressFactor: 'Low', ... },   'Happy': { ..., stressFactor: 'Low' },
      'Sad': { ..., stressFactor: 'High' },                   'Angry': { ..., stressFactor: 'High' },
      'Fearful': { ..., stressFactor: 'High' },               'Disgusted': { ..., stressFactor: 'High' },
      'Surprised': { ..., stressFactor: 'Medium' } };
  const EMOTION_ALIASES = {
      'Fear': 'Fearful', 'Disgust': 'Disgusted', 'Surprise': 'Surprised', 'fear': 'Fearful',
      'disgust': 'Disgusted', 'surprise': 'Surprised', 'happy': 'Happy', 'sad': 'Sad',
      'angry': 'Angry', 'neutral': 'Neutral' };
  \<close>
  Only the \<^verbatim>\<open>stressFactor\<close> of an \<^verbatim>\<open>EMOTIONS\<close> entry is read by the detection code.
\<close>

definition EMOTIONS :: "(string \<times> string) list" where
  "EMOTIONS =
     [(''Neutral'', ''Low''), (''Happy'', ''Low''), (''Sad'', ''High''), (''Angry'', ''High''),
      (''Fearful'', ''High''), (''Disgusted'', ''High''), (''Surprised'', ''Medium'')]"

definition EMOTION_ALIASES :: "(string \<times> string) list" where
  "EMOTION_ALIASES =
     [(''Fear'', ''Fearful''), (''Disgust'', ''Disgusted''), (''Surprise'', ''Surprised''),
      (''fear'', ''Fearful''), (''disgust'', ''Disgusted''), (''surprise'', ''Surprised''),
      (''happy'', ''Happy''), (''sad'', ''Sad''), (''angry'', ''Angry''), (''neutral'', ''Neutral'')]"

text \<open>
  The value of the \<^verbatim>\<open>emotion\<close> property of a result: a string, a built-in object
  (\<open>JBuiltin k\<close> is the value of \<^verbatim>\<open>Object.prototype[k]\<close>), or \<^verbatim>\<open>undefined\<close>.
\<close>

datatype jsval = JStr string | JBuiltin string | JUndefined

text \<open>
  The alias step of \<^verbatim>\<open>detectWithBackend\<close>:
  \<^verbatim>\<open>
  let emotion = result.emotion;
  if (EMOTION_ALIASES[emotion]) { emotion = EMOTION_ALIASES[emotion]; }
  \<close>
  The property key of a value that is no string is its string form: \<^verbatim>\<open>"undefined"\<close>, or
  the source text of a built-in (\<^verbatim>\<open>"function Object() { [native code] }"\<close>,
  \<^verbatim>\<open>"[object Object]"\<close>), none of which names a property of the table or of its prototype.
\<close>

definition normalizeEmotion :: "jsval \<Rightarrow> jsval" where
  "normalizeEmotion emotion =
     (case emotion of
        JStr s \<Rightarrow>
          (case js_get EMOTION_ALIASES s of
             Own canonical \<Rightarrow> JStr canonical
           | Inherited k \<Rightarrow> JBuiltin k
           | Undefined \<Rightarrow> JStr s)
      | JBuiltin k \<Rightarrow> JBuiltin k
      | JUndefined \<Rightarrow> JUndefined)"

text \<open>
  \<^verbatim>\<open>
  function calculateStressLevel(emotion, features) {
      const emotionData = EMOTIONS[emotion];
      if (!emotionData) return 'Medium';
      return emotionData.stressFactor;
  }
  \<close>
  An inherited property is a truthy object without a \<^verbatim>\<open>stressFactor\<close>: the result is
  \<^verbatim>\<open>undefined\<close>, written \<open>None\<close>.
\<close>

definition calculateStressLevel :: "string \<Rightarrow> string option" where
  "calculateStressLevel emotion =
     (case js_get EMOTIONS emotion of
        Own stressFactor \<Rightarrow> Some stressFactor
      | Inherited _ \<Rightarrow> None
      | Undefined \<Rightarrow> Some ''Medium'')"

text \<open>The property key that a possibly undefined string denotes.\<close>

definition key_of :: "string option \<Rightarrow> string" where
  "key_of v = (case v of Some s \<Rightarrow> s | None \<Rightarrow> ''undefined'')"

section \<open>Results, the result log and the clock\<close>

text \<open>
  The object returned by \<^verbatim>\<open>analyzeStressTrends\<close>. \<open>None\<close> stands for \<^verbatim>\<open>null\<close> in
  \<open>avgStress\<close> and for an absent property in \<open>totalScansThisWeek\<close>.
\<close>

record stress_trend =
  trend :: string
  avgStress :: "string option"
  peakTimes :: "nat list"
  totalScansThisWeek :: "nat option"
  improvementRate :: jsint

text \<open>
  A detection result, with the properties that the detection code computes or reads back.
  \<open>None\<close> is an absent (or \<^verbatim>\<open>undefined\<close>) property. The properties that
  \<^verbatim>\<open>detectWithBackend\<close> copies from the response without reading them
  (\<^verbatim>\<open>faceDetected\<close>, \<^verbatim>\<open>allPredictions\<close>, \<^verbatim>\<open>facesCount\<close>, \<^verbatim>\<open>allFaces\<close>,
  \<^verbatim>\<open>combinedStressLevel\<close>) and the display blocks \<^verbatim>\<open>algorithmResults\<close>,
  \<^verbatim>\<open>imageFeatures\<close>, \<^verbatim>\<open>facialAnalysis\<close> are left out.
\<close>

record detection_result =
  emotion :: jsval
  stressLevel :: "string option"
  eyeStrain :: "string option"
  browTension :: "string option"
  facialFatigue :: "string option"
  confidence :: rat
  timestamp :: string
  detectionMethod :: string
  allProbabilities :: "(string \<times> int) list option"
  reliefUrgency :: "jsint option"
  stressTrends :: "stress_trend option"
  userName :: "string option"
  userEmail :: "string option"




subsection \<open>localStorage\<close>

text \<open>
  The keys of \<^verbatim>\<open>localStorage\<close> that the sources use, each holding the parsed form of the
  JSON text stored under it; \<open>None\<close> is a key that is not set. The texts are those that
  \<^verbatim>\<open>JSON.stringify\<close> wrote, so parsing them does not fail.
\<close>

record user =
  user_id :: int
  user_name :: string
  user_email :: string
  user_mobile :: string

record account = user +
  user_password :: string
  user_status :: string
  user_registeredAt :: string

record local_storage =
  stressResults :: "detection_result list option"
  currentUser :: "user option"
  users :: "account list option"

datatype js_error =
    FetchRejected
  | HttpError nat
  | JsonSyntaxError
  | TypeError
  | DetectionFailed string

text \<open>
  \<^verbatim>\<open>
  function getResultsHistory() {
      return JSON.parse(localStorage.getItem('stressResults') || '[]');
  }
  function saveResult(result) {
      const results = JSON.parse(localStorage.getItem('stressResults') || '[]');
      results.push(result);
      localStorage.setItem('stressResults', JSON.stringify(results));
  }
  \<close>
  The store is taken to accept every write. What is stored for a result is its JSON form.
\<close>

definition getResultsHistory :: "local_storage \<Rightarrow> detection_result list" where
  "getResultsHistory st = (case stressResults st of None \<Rightarrow> [] | Some rs \<Rightarrow> rs)"


subsection \<open>Dates\<close>

text \<open>
  Time values are milliseconds since the epoch. The environment gives the parser of
  \<^verbatim>\<open>new Date(string)\<close> (\<open>None\<close> for an invalid date), the offset of local time (at a
  UTC time value and at a local one, as ECMAScript's \<^verbatim>\<open>LocalTZA\<close>), and the clock: the
  reading of the \<open>i\<close>-th \<^verbatim>\<open>new Date()\<close> of a call.
\<close>

record calendar =
  Date_parse :: "string \<Rightarrow> int option"
  LocalTZA :: "int \<Rightarrow> int"
  LocalTZA_local :: "int \<Rightarrow> int"
  nowAt :: "nat \<Rightarrow> int"

definition msPerHour :: int where "msPerHour = 3600000"
definition msPerDay :: int where "msPerDay = 86400000"

definition LocalTime :: "calendar \<Rightarrow> int \<Rightarrow> int" where
  "LocalTime cal t = t + LocalTZA cal t"

definition UTC :: "calendar \<Rightarrow> int \<Rightarrow> int" where
  "UTC cal t = t - LocalTZA_local cal t"

definition getHours :: "calendar \<Rightarrow> int \<Rightarrow> nat" where
  "getHours cal t = nat ((LocalTime cal t div msPerHour) mod 24)"

text \<open>
  \<^verbatim>\<open>const weekAgo = new Date(); weekAgo.setDate(weekAgo.getDate() - 7);\<close>
  \<^verbatim>\<open>setDate\<close> moves the local date seven days back and keeps the local time of day.
\<close>

definition weekAgo :: "calendar \<Rightarrow> int \<Rightarrow> int" where
  "weekAgo cal now = UTC cal (LocalTime cal now - 7 * msPerDay)"

section \<open>Stress trends\<close>

text \<open>
  \<^verbatim>\<open>
  function analyzeStressTrends() {
      const results = JSON.parse(localStorage.getItem('stressResults') || '[]');
      const last7Days = results.filter(r => {
          const date = new Date(r.timestamp);
          const weekAgo = new Date();
          weekAgo.setDate(weekAgo.getDate() - 7);
          return date >= weekAgo;
      });
      if (last7Days.length === 0) {
          return { trend: 'insufficient_data', avgStress: null, peakTimes: [], improvementRate: 0 };
      }
      const stressValues = { 'Low': 1, 'Medium': 2, 'High': 3 };
      const avgStress = last7Days.reduce((sum, r) => sum + stressValues[r.stressLevel], 0) / last7Days.length;
      const firstHalf = last7Days.slice(0, Math.floor(last7Days.length / 2));
      const secondHalf = last7Days.slice(Math.floor(last7Days.length / 2));
      const firstAvg = firstHalf.length > 0 ? firstHalf.reduce(...) / firstHalf.length : avgStress;
      const secondAvg = secondHalf.length > 0 ? secondHalf.reduce(...) / secondHalf.length : avgStress;
      let trend = 'stable';
      if (secondAvg < firstAvg - 0.3) trend = 'improving';
      else if (secondAvg > firstAvg + 0.3) trend = 'worsening';
      const hourCounts = {};
      last7Days.filter(r => r.stressLevel === 'High').forEach(r => {
          const hour = new Date(r.timestamp).getHours();
          hourCounts[hour] = (hourCounts[hour] || 0) + 1;
      });
      const peakTimes = Object.entries(hourCounts)
          .sort((a, b) => b[1] - a[1]).slice(0, 3).map(([hour]) => parseInt(hour));
      return { trend,
               avgStress: avgStress <= 1.5 ? 'Low' : avgStress <= 2.5 ? 'Medium' : 'High',
               peakTimes, totalScansThisWeek: last7Days.length,
               improvementRate: Math.round((firstAvg - secondAvg) * 33.3) };
  }
  \<close>
\<close>

text \<open>
  The filter callback reads the clock once for each entry; a comparison with an invalid
  date is false.
\<close>

definition in_window :: "calendar \<Rightarrow> nat \<Rightarrow> detection_result \<Rightarrow> bool" where
  "in_window cal i r =
     (case Date_parse cal (timestamp r) of
        None \<Rightarrow> False
      | Some date \<Rightarrow> weekAgo cal (nowAt cal i) \<le> date)"

fun last7Days_from :: "calendar \<Rightarrow> nat \<Rightarrow> detection_result list \<Rightarrow> detection_result list" where
  "last7Days_from cal i [] = []"
| "last7Days_from cal i (r # rs) =
     (if in_window cal i r then r # last7Days_from cal (Suc i) rs
      else last7Days_from cal (Suc i) rs)"

definition last7Days :: "calendar \<Rightarrow> local_storage \<Rightarrow> detection_result list" where
  "last7Days cal st = last7Days_from cal 0 (getResultsHistory st)"

definition stressValues :: "(string \<times> int) list" where
  "stressValues = [(''Low'', 1), (''Medium'', 2), (''High'', 3)]"

text \<open>
  The \<^verbatim>\<open>reduce\<close>: a level that is no own key of \<^verbatim>\<open>stressValues\<close> adds
  \<^verbatim>\<open>undefined\<close> (the sum becomes \<^verbatim>\<open>NaN\<close>) or a function (the sum becomes a string);
  either way the quotient by the length is \<^verbatim>\<open>NaN\<close>, written \<open>None\<close>.
\<close>

fun level_sum :: "int \<Rightarrow> detection_result list \<Rightarrow> int option" where
  "level_sum acc [] = Some acc"
| "level_sum acc (r # rs) =
     (case js_get stressValues (key_of (stressLevel r)) of
        Own v \<Rightarrow> level_sum (acc + v) rs
      | _ \<Rightarrow> None)"

definition average :: "detection_result list \<Rightarrow> double option" where
  "average rs = map_option (\<lambda>total. round_quot total (int (length rs))) (level_sum 0 rs)"

definition dless :: "double option \<Rightarrow> double option \<Rightarrow> bool" where
  "dless x y = (case (x, y) of (Some a, Some b) \<Rightarrow> dval a < dval b | _ \<Rightarrow> False)"

definition dle :: "double option \<Rightarrow> double option \<Rightarrow> bool" where
  "dle x y = (case (x, y) of (Some a, Some b) \<Rightarrow> dval a \<le> dval b | _ \<Rightarrow> False)"

definition trend_of :: "double option \<Rightarrow> double option \<Rightarrow> string" where
  "trend_of firstAvg secondAvg =
     (if dless secondAvg (map_option (\<lambda>a. dsub a (round_quot 3 10)) firstAvg) then ''improving''
      else if dless (map_option (\<lambda>a. dadd a (round_quot 3 10)) firstAvg) secondAvg then ''worsening''
      else ''stable'')"

definition improvement_of :: "double option \<Rightarrow> double option \<Rightarrow> jsint" where
  "improvement_of firstAvg secondAvg =
     (case (firstAvg, secondAvg) of
        (Some a, Some b) \<Rightarrow> Num (Math_round (dmul (dsub a b) (round_quot 333 10)))
      | _ \<Rightarrow> NaN)"

text \<open>
  The hour of an entry. Every entry of \<^verbatim>\<open>last7Days\<close> has a timestamp that parses, as the
  filter kept it.
\<close>

definition hour_of :: "calendar \<Rightarrow> detection_result \<Rightarrow> nat option" where
  "hour_of cal r = map_option (getHours cal) (Date_parse cal (timestamp r))"

definition high_hours :: "calendar \<Rightarrow> detection_result list \<Rightarrow> nat list" where
  "high_hours cal rs = List.map_filter (hour_of cal) (filter (\<lambda>r. stressLevel r = Some ''High'') rs)"

text \<open>\<^verbatim>\<open>hourCounts\<close>: an hour that is no key counts as 0.\<close>

definition hourCounts :: "nat list \<Rightarrow> nat \<Rightarrow> nat" where
  "hourCounts hours = fold (\<lambda>hour counts. counts(hour := counts hour + 1)) hours (\<lambda>_. 0)"

text \<open>
  \<^verbatim>\<open>Object.entries\<close> lists the keys that are integer indices in ascending numeric order,
  whatever the order of their insertion; the hours \<^verbatim>\<open>"0"\<close> to \<^verbatim>\<open>"23"\<close> are such keys.
  \<^verbatim>\<open>Array.prototype.sort\<close> is stable.
\<close>

definition Object_entries :: "(nat \<Rightarrow> nat) \<Rightarrow> (nat \<times> nat) list" where
  "Object_entries counts = map (\<lambda>h. (h, counts h)) (filter (\<lambda>h. 0 < counts h) [0..<24])"

definition peak_hours :: "nat list \<Rightarrow> nat list" where
  "peak_hours hours =
     map fst (take 3 (sort_key (\<lambda>e. - int (snd e)) (Object_entries (hourCounts hours))))"

definition analyzeStressTrends :: "calendar \<Rightarrow> local_storage \<Rightarrow> stress_trend" where
  "analyzeStressTrends cal st =
     (let last7 = last7Days cal st in
      if length last7 = 0 then
        \<lparr>trend = ''insufficient_data'', avgStress = None, peakTimes = [],
         totalScansThisWeek = None, improvementRate = Num 0\<rparr>
      else
        let avg = average last7;
            firstHalf = take (length last7 div 2) last7;
            secondHalf = drop (length last7 div 2) last7;
            firstAvg = (if 0 < length firstHalf then average firstHalf else avg);
            secondAvg = (if 0 < length secondHalf then average secondHalf else avg)
        in \<lparr>trend = trend_of firstAvg secondAvg,
            avgStress = Some (if dle avg (Some (round_quot 15 10)) then ''Low''
                              else if dle avg (Some (round_quot 25 10)) then ''Medium''
                              else ''High''),
            peakTimes = peak_hours (high_hours cal last7),
            totalScansThisWeek = Some (length last7),
            improvementRate = improvement_of firstAvg secondAvg\<rparr>)"

text \<open>
  The tie rule as the specification words it: among hours with the same count, the one
  met first in the history comes first.
\<close>

definition first_encountered :: "nat list \<Rightarrow> nat list" where
  "first_encountered hours = rev (remdups (rev hours))"

definition peak_hours_spec :: "nat list \<Rightarrow> nat list" where
  "peak_hours_spec hours =
     map fst (take 3 (sort_key (\<lambda>e. - int (snd e))
       (map (\<lambda>h. (h, count_list hours h)) (first_encountered hours))))"

text \<open>The number of High-stress entries of the last seven days that fall in hour \<open>h\<close>.\<close>

definition high_count :: "calendar \<Rightarrow> local_storage \<Rightarrow> nat \<Rightarrow> nat" where
  "high_count cal st h =
     length (filter (\<lambda>r. stressLevel r = Some ''High'' \<and> hour_of cal r = Some h) (last7Days cal st))"

text \<open>The order of the result: more High-stress entries first, then the earlier hour.\<close>

definition peak_before :: "(nat \<Rightarrow> nat) \<Rightarrow> nat \<Rightarrow> nat \<Rightarrow> bool" where
  "peak_before count h h' \<longleftrightarrow> count h' < count h \<or> (count h = count h' \<and> h < h')"


section \<open>The module state and the backend\<close>

text \<open>
  The flags \<^verbatim>\<open>backendAvailable\<close> (initially \<^verbatim>\<open>null\<close>, written \<open>None\<close>) and
  \<^verbatim>\<open>faceApiModelsLoaded\<close>. \<open>modelLoadCalls\<close> is not a variable of the program: it counts
  the calls of \<^verbatim>\<open>loadFaceApiModels\<close>, to make them observable.
\<close>

record module_state =
  backendAvailable :: "bool option"
  faceApiModelsLoaded :: bool
  modelLoadCalls :: nat

text \<open>
  What \<^verbatim>\<open>fetch\<close> and \<^verbatim>\<open>response.json()\<close> deliver. The promise of \<^verbatim>\<open>fetch\<close> rejects on
  a network error and when its \<^verbatim>\<open>AbortController\<close> fires; otherwise there is a status and a
  body. The body is no JSON text, or the JSON \<^verbatim>\<open>null\<close>, or a JSON value, given by the
  properties that the code reads from it.
\<close>

datatype 'a response_body = NotJson | JsonNull | JsonValue 'a

datatype 'a fetch_result = NetworkError | Aborted | Response nat "'a response_body"

definition response_ok :: "nat \<Rightarrow> bool" where
  "response_ok status \<longleftrightarrow> 200 \<le> status \<and> status \<le> 299"

text \<open>The properties of the response of \<^verbatim>\<open>/api/detect/\<close> that \<^verbatim>\<open>detectWithBackend\<close> reads.\<close>

record backend_response =
  r_success :: bool
  r_error :: "string option"
  r_emotion :: "string option"
  r_stressLevel :: "string option"
  r_eyeStrain :: "string option"
  r_browTension :: "string option"
  r_facialFatigue :: "string option"
  r_confidence :: "rat option"

subsection \<open>The client-side inputs\<close>

text \<open>
  A decoded image is its pixels (red, green, blue, alpha), at least one; the image can
  also fail to decode.
\<close>

type_synonym pixel = "8 word \<times> 8 word \<times> 8 word \<times> 8 word"

datatype image_load = Decoded pixel "pixel list" | DecodeError

text \<open>
  What face-api.js delivers for a face: the seven expression probabilities, and the scores
  of \<^verbatim>\<open>analyzeFacialLandmarks\<close>, which reads the landmark points and canvas pixels of the
  library and replaces any exception by its default scores.
\<close>

record expressions =
  neutral :: rat
  happy :: rat
  sad :: rat
  angry :: rat
  fearful :: rat
  disgusted :: rat
  surprised :: rat

record facial_analysis =
  eyeFatigueScore :: rat
  browTensionScore :: rat
  mouthTensionScore :: rat
  darkCircleScore :: rat
  wrinkleScore :: rat
  fatigueScore :: rat
  overallStressScore :: rat

record face =
  face_expressions :: expressions
  face_analysis :: facial_analysis

text \<open>
  A run of \<^verbatim>\<open>detectWithFaceApi\<close>: the image does not load, or the library throws, or it
  returns the faces of the first detection and those of the more lenient second one.
\<close>

datatype faceapi_run = ImageLoadFails | DetectionThrows | Detected "face list" "face list"

text \<open>
  Everything outside the code that a call of \<^verbatim>\<open>detectStress\<close> depends on. \<open>mirrorLoads n\<close>
  says, for the \<open>n\<close>-th call of \<^verbatim>\<open>loadFaceApiModels\<close>, from which of the three model mirrors
  the models load; \<open>random i\<close> is the \<open>i\<close>-th value of \<^verbatim>\<open>Math.random()\<close>; \<open>nowISO\<close> is
  \<^verbatim>\<open>new Date().toISOString()\<close>.
\<close>

record environment =
  uploadedImage :: "string option"
  healthFetch :: "string option fetch_result"
  detectFetch :: "backend_response fetch_result"
  faceapiDefined :: bool
  mirrorLoads :: "nat \<Rightarrow> bool list"
  faceApiRun :: faceapi_run
  imageLoad :: image_load
  random :: "nat \<Rightarrow> rat"
  nowISO :: string
  clock :: calendar
  localStorage :: local_storage

text \<open>
  \<^verbatim>\<open>
  async function loadFaceApiModels() {
      if (faceApiModelsLoaded) return true;
      if (typeof faceapi === 'undefined') { return false; }
      try {
          let modelsLoaded = false;
          for (const MODEL_URL of MODEL_URLS) {
              try { await Promise.all([...loadFromUri(MODEL_URL)...]);
                    faceApiModelsLoaded = true; modelsLoaded = true; break;
              } catch (urlError) { }
          }
          if (!modelsLoaded) { throw new Error('All CDN URLs failed'); }
          return true;
      } catch (error) { faceApiModelsLoaded = false; return false; }
  }
  \<close>
\<close>

definition loadFaceApiModels :: "environment \<Rightarrow> module_state \<Rightarrow> bool \<times> module_state" where
  "loadFaceApiModels env st =
     (let n = modelLoadCalls st;
          st = st\<lparr>modelLoadCalls := Suc n\<rparr>
      in if faceApiModelsLoaded st then (True, st)
         else if \<not> faceapiDefined env then (False, st)
         else if True \<in> set (take 3 (mirrorLoads env n)) then (True, st\<lparr>faceApiModelsLoaded := True\<rparr>)
         else (False, st\<lparr>faceApiModelsLoaded := False\<rparr>))"

text \<open>
  \<^verbatim>\<open>
  async function checkBackendHealth() {
      try {
          const controller = new AbortController();
          const timeoutId = setTimeout(() => controller.abort(), 3000);
          const response = await fetch(`${API_CONFIG.baseUrl}${API_CONFIG.healthEndpoint}`,
              { method: 'GET', signal: controller.signal });
          clearTimeout(timeoutId);
          if (response.ok) {
              const data = await response.json();
              backendAvailable = data.status === 'healthy';
              return true;
          }
      } catch (error) {
          backendAvailable = false;
          await loadFaceApiModels();
      }
      return false;
  }
  \<close>
  The \<^verbatim>\<open>catch\<close> block is \<open>health_catch\<close>. Reading \<^verbatim>\<open>data.status\<close> of \<^verbatim>\<open>null\<close> throws.
\<close>

definition health_catch :: "environment \<Rightarrow> module_state \<Rightarrow> bool \<times> module_state" where
  "health_catch env st =
     (let st = st\<lparr>backendAvailable := Some False\<rparr>;
          (_, st) = loadFaceApiModels env st
      in (False, st))"

definition checkBackendHealth :: "environment \<Rightarrow> module_state \<Rightarrow> bool \<times> module_state" where
  "checkBackendHealth env st =
     (case healthFetch env of
        Response status body \<Rightarrow>
          if response_ok status then
            (case body of
               JsonValue data_status \<Rightarrow>
                 (True, st\<lparr>backendAvailable := Some (data_status = Some ''healthy'')\<rparr>)
             | _ \<Rightarrow> health_catch env st)
          else (False, st)
      | _ \<Rightarrow> health_catch env st)"

text \<open>
  \<^verbatim>\<open>
  async function detectWithBackend(imageDataUrl) {
      try {
          const response = await fetch(`${API_CONFIG.baseUrl}${API_CONFIG.detectEndpoint}`, { method: 'POST', ... });
          if (!response.ok) { throw new Error(`HTTP error! status: ${response.status}`); }
          const result = await response.json();
          if (result.success) {
              let emotion = result.emotion;
              if (EMOTION_ALIASES[emotion]) { emotion = EMOTION_ALIASES[emotion]; }
              return { emotion: emotion, stressLevel: result.stressLevel,
                       eyeStrain: result.eyeStrain || 'Normal', browTension: result.browTension || 'Normal',
                       facialFatigue: result.facialFatigue || 'Normal', confidence: result.confidence || 85,
                       timestamp: new Date().toISOString(), detectionMethod: 'CNN Model (Backend)',
                       faceDetected: ..., allPredictions: ..., facesCount: ..., allFaces: ..., combinedStressLevel: ... };
          } else { throw new Error(result.error || 'Detection failed'); }
      } catch (error) { throw error; }
  }
  \<close>
  The request carries no abort signal and no timer: \<^verbatim>\<open>API_CONFIG.timeout\<close> is not read.
\<close>

definition CNN_BACKEND :: string where
  "CNN_BACKEND = ''CNN Model (Backend)''"

definition or_string :: "string option \<Rightarrow> string \<Rightarrow> string" where
  "or_string v dflt = (case v of None \<Rightarrow> dflt | Some s \<Rightarrow> if s = [] then dflt else s)"

definition or_number :: "rat option \<Rightarrow> rat \<Rightarrow> rat" where
  "or_number v dflt = (case v of None \<Rightarrow> dflt | Some x \<Rightarrow> if x = 0 then dflt else x)"

definition detectWithBackend :: "environment \<Rightarrow> js_error + detection_result" where
  "detectWithBackend env =
     (case detectFetch env of
        Response status body \<Rightarrow>
          if \<not> response_ok status then Inl (HttpError status)
          else
            (case body of
               NotJson \<Rightarrow> Inl JsonSyntaxError
             | JsonNull \<Rightarrow> Inl TypeError
             | JsonValue result \<Rightarrow>
                 if r_success result then
                   Inr \<lparr>emotion = normalizeEmotion
                          (case r_emotion result of None \<Rightarrow> JUndefined | Some s \<Rightarrow> JStr s),
                        stressLevel = r_stressLevel result,
                        eyeStrain = Some (or_string (r_eyeStrain result) ''Normal''),
                        browTension = Some (or_string (r_browTension result) ''Normal''),
                        facialFatigue = Some (or_string (r_facialFatigue result) ''Normal''),
                        confidence = or_number (r_confidence result) 85,
                        timestamp = nowISO env,
                        detectionMethod = CNN_BACKEND,
                        allProbabilities = None,
                        reliefUrgency = None,
                        stressTrends = None,
                        userName = None,
                        userEmail = None\<rparr>
                 else Inl (DetectionFailed (or_string (r_error result) ''Detection failed'')))
      | _ \<Rightarrow> Inl FetchRejected)"

section \<open>The pixel heuristic\<close>

text \<open>
  The numbers of this section are modelled as rationals with exact arithmetic: every
  finite binary64 value is a rational, and the draws of \<^verbatim>\<open>Math.random()\<close> are arbitrary.
\<close>

record features =
  brightness :: rat
  contrast :: rat
  redChannel :: rat
  greenChannel :: rat
  blueChannel :: rat
  skinToneScore :: rat
  imageQuality :: rat

text \<open>
  \<^verbatim>\<open>
  function detectSkinTone(r, g, b) {
      const ratio1 = r / (g + 1);
      const ratio2 = r / (b + 1);
      if (ratio1 > 0.9 && ratio1 < 1.8 && ratio2 > 0.8 && ratio2 < 2.5 && r > 80) {
          return Math.min(1, (ratio1 + ratio2) / 4);
      }
      return 0.3;
  }
  function calculateImageQuality(brightness, contrast) {
      const brightnessScore = 1 - Math.abs(brightness - 128) / 128;
      const contrastScore = Math.min(1, contrast / 50);
      return (brightnessScore * 0.6 + contrastScore * 0.4);
  }
  \<close>
\<close>

definition detectSkinTone :: "rat \<Rightarrow> rat \<Rightarrow> rat \<Rightarrow> rat" where
  "detectSkinTone r g b =
     (let ratio1 = r / (g + 1);
          ratio2 = r / (b + 1)
      in if 9 / 10 < ratio1 \<and> ratio1 < 18 / 10 \<and> 8 / 10 < ratio2 \<and> ratio2 < 25 / 10 \<and> 80 < r
         then min 1 ((ratio1 + ratio2) / 4)
         else 3 / 10)"

definition calculateImageQuality :: "rat \<Rightarrow> rat \<Rightarrow> rat" where
  "calculateImageQuality brightness' contrast' =
     (let brightnessScore = 1 - \<bar>brightness' - 128\<bar> / 128;
          contrastScore = min 1 (contrast' / 50)
      in brightnessScore * (6 / 10) + contrastScore * (4 / 10))"

text \<open>
  The loop of \<^verbatim>\<open>analyzeImageData\<close> over the pixels:
  \<^verbatim>\<open>
  for (let i = 0; i < pixels.length; i += 4) {
      const r = pixels[i]; const g = pixels[i + 1]; const b = pixels[i + 2];
      const brightness = (r * 0.299 + g * 0.587 + b * 0.114);
      totalBrightness += brightness;
      redTotal += r; greenTotal += g; blueTotal += b;
      if (i > 0) { contrastSum += Math.abs(brightness - prevBrightness); }
      prevBrightness = brightness;
  }
  \<close>
\<close>

record scan =
  totalBrightness :: rat
  redTotal :: rat
  greenTotal :: rat
  blueTotal :: rat
  contrastSum :: rat
  prevBrightness :: rat

definition luma :: "pixel \<Rightarrow> rat" where
  "luma p =
     (case p of (r, g, b, a) \<Rightarrow>
        of_nat (unat r) * (299 / 1000) + of_nat (unat g) * (587 / 1000) + of_nat (unat b) * (114 / 1000))"

fun scan_pixels :: "bool \<Rightarrow> scan \<Rightarrow> pixel list \<Rightarrow> scan" where
  "scan_pixels first acc [] = acc"
| "scan_pixels first acc (p # ps) =
     (case p of (r, g, b, a) \<Rightarrow>
        scan_pixels False
          \<lparr>totalBrightness = totalBrightness acc + luma p,
           redTotal = redTotal acc + of_nat (unat r),
           greenTotal = greenTotal acc + of_nat (unat g),
           blueTotal = blueTotal acc + of_nat (unat b),
           contrastSum = (if first then contrastSum acc
                          else contrastSum acc + \<bar>luma p - prevBrightness acc\<bar>),
           prevBrightness = luma p\<rparr> ps)"

text \<open>
  \<^verbatim>\<open>analyzeImageData\<close>: the averages over the pixels when the image loads, and the fixed
  feature set of \<^verbatim>\<open>img.onerror\<close> when it does not:
  \<^verbatim>\<open>
  resolve({ brightness: 128, contrast: 50, redChannel: 128, greenChannel: 128,
            blueChannel: 128, skinToneScore: 0.5, imageQuality: 0.7 });
  \<close>
\<close>

definition analyzeImageData :: "image_load \<Rightarrow> features" where
  "analyzeImageData img =
     (case img of
        DecodeError \<Rightarrow>
          \<lparr>brightness = 128, contrast = 50, redChannel = 128, greenChannel = 128,
           blueChannel = 128, skinToneScore = 1 / 2, imageQuality = 7 / 10\<rparr>
      | Decoded p ps \<Rightarrow>
          (let pixelCount = of_nat (length (p # ps));
               s = scan_pixels True
                     \<lparr>totalBrightness = 0, redTotal = 0, greenTotal = 0, blueTotal = 0,
                      contrastSum = 0, prevBrightness = 0\<rparr> (p # ps);
               avgBrightness = totalBrightness s / pixelCount;
               avgRed = redTotal s / pixelCount;
               avgGreen = greenTotal s / pixelCount;
               avgBlue = blueTotal s / pixelCount;
               avgContrast = contrastSum s / pixelCount
           in \<lparr>brightness = avgBrightness, contrast = avgContrast, redChannel = avgRed,
               greenChannel = avgGreen, blueChannel = avgBlue,
               skinToneScore = detectSkinTone avgRed avgGreen avgBlue,
               imageQuality = calculateImageQuality avgBrightness avgContrast\<rparr>))"

text \<open>
  \<^verbatim>\<open>detectEmotionClientSide\<close>: one of four score tables, by the first test that holds; the
  properties of an object with string keys are visited in the order of their insertion.
\<close>

definition emotionScores :: "features \<Rightarrow> (string \<times> rat) list" where
  "emotionScores f =
     (if 140 < brightness f \<and> 1 / 2 < skinToneScore f then
        [(''Happy'', 35 / 100), (''Neutral'', 30 / 100), (''Surprised'', 15 / 100), (''Sad'', 5 / 100),
         (''Angry'', 5 / 100), (''Fearful'', 5 / 100), (''Disgusted'', 5 / 100)]
      else if brightness f < 100 \<or> 150 < redChannel f then
        [(''Sad'', 25 / 100), (''Angry'', 20 / 100), (''Fearful'', 15 / 100), (''Neutral'', 15 / 100),
         (''Disgusted'', 10 / 100), (''Happy'', 8 / 100), (''Surprised'', 7 / 100)]
      else if 60 < contrast f then
        [(''Angry'', 22 / 100), (''Fearful'', 18 / 100), (''Surprised'', 18 / 100), (''Neutral'', 15 / 100),
         (''Sad'', 12 / 100), (''Disgusted'', 10 / 100), (''Happy'', 5 / 100)]
      else
        [(''Neutral'', 35 / 100), (''Happy'', 20 / 100), (''Sad'', 12 / 100), (''Surprised'', 12 / 100),
         (''Angry'', 8 / 100), (''Fearful'', 7 / 100), (''Disgusted'', 6 / 100)])"

text \<open>
  \<^verbatim>\<open>
  for (const [emotion, prob] of Object.entries(emotionScores)) {
      const variance = (Math.random() - 0.5) * 0.1;
      allProbabilities[emotion] = Math.max(0.01, prob + variance);
      total += allProbabilities[emotion];
  }
  for (const emotion in allProbabilities) {
      allProbabilities[emotion] = Math.round((allProbabilities[emotion] / total) * 100);
  }
  \<close>
\<close>

fun jitter_from :: "(nat \<Rightarrow> rat) \<Rightarrow> nat \<Rightarrow> (string \<times> rat) list \<Rightarrow> (string \<times> rat) list" where
  "jitter_from rand i [] = []"
| "jitter_from rand i (e # es) =
     (let variance = (rand i - 1 / 2) * (1 / 10)
      in (fst e, max (1 / 100) (snd e + variance)) # jitter_from rand (Suc i) es)"

definition Math_round_rat :: "rat \<Rightarrow> int" where
  "Math_round_rat x = \<lfloor>x + 1 / 2\<rfloor>"

definition percentages :: "(string \<times> rat) list \<Rightarrow> (string \<times> int) list" where
  "percentages ps =
     (let total = sum_list (map snd ps)
      in map (\<lambda>e. (fst e, Math_round_rat (snd e / total * 100))) ps)"

text \<open>
  \<^verbatim>\<open>
  let dominantEmotion = 'Neutral'; let maxProb = 0;
  for (const [emotion, prob] of Object.entries(allProbabilities)) {
      if (prob > maxProb) { maxProb = prob; dominantEmotion = emotion; }
  }
  \<close>
\<close>

fun dominant :: "string \<times> int \<Rightarrow> (string \<times> int) list \<Rightarrow> string \<times> int" where
  "dominant best [] = best"
| "dominant best (e # es) = dominant (if snd best < snd e then e else best) es"

definition detectEmotionClientSide :: "features \<Rightarrow> (nat \<Rightarrow> rat) \<Rightarrow> string \<times> (string \<times> int) list" where
  "detectEmotionClientSide f rand =
     (let allProbabilities' = percentages (jitter_from rand 0 (emotionScores f))
      in (fst (dominant (''Neutral'', 0) allProbabilities'), allProbabilities'))"

text \<open>\<^verbatim>\<open>array[i]\<close>: \<^verbatim>\<open>undefined\<close> outside the array.\<close>

definition js_index :: "'a list \<Rightarrow> int \<Rightarrow> 'a option" where
  "js_index xs i = (if 0 \<le> i \<and> i < int (length xs) then Some (xs ! nat i) else None)"

text \<open>
  \<^verbatim>\<open>
  function calculateFacialFeatures(stressLevel, features) {
      if (stressLevel === 'High') {
          eyeStrainIndex = 3 + Math.floor(Math.random() * 2);
          browTensionIndex = 2 + Math.floor(Math.random() * 3);
          fatigueIndex = 2 + Math.floor(Math.random() * 3);
      } else if (stressLevel === 'Medium') {
          eyeStrainIndex = 1 + Math.floor(Math.random() * 3);
          browTensionIndex = 1 + Math.floor(Math.random() * 2);
          fatigueIndex = 1 + Math.floor(Math.random() * 2);
      } else {
          eyeStrainIndex = Math.floor(Math.random() * 2);
          browTensionIndex = Math.floor(Math.random() * 2);
          fatigueIndex = Math.floor(Math.random() * 2);
      }
      if (features && features.brightness < 100) { fatigueIndex = Math.min(fatigueIndex + 1, 4); }
      if (features && features.contrast > 60) { browTensionIndex = Math.min(browTensionIndex + 1, 4); }
      return { eyeStrain: FEATURE_LEVELS[eyeStrainIndex], browTension: FEATURE_LEVELS[browTensionIndex],
               facialFatigue: FEATURE_LEVELS[fatigueIndex] };
  }
  \<close>
\<close>

definition calculateFacialFeatures ::
  "string option \<Rightarrow> features \<Rightarrow> (nat \<Rightarrow> rat) \<Rightarrow> string option \<times> string option \<times> string option" where
  "calculateFacialFeatures level f rand =
     (let (eyeStrainIndex, browTensionIndex, fatigueIndex) =
            (if level = Some ''High'' then
               (3 + \<lfloor>rand 0 * 2\<rfloor>, 2 + \<lfloor>rand 1 * 3\<rfloor>, 2 + \<lfloor>rand 2 * 3\<rfloor>)
             else if level = Some ''Medium'' then
               (1 + \<lfloor>rand 0 * 3\<rfloor>, 1 + \<lfloor>rand 1 * 2\<rfloor>, 1 + \<lfloor>rand 2 * 2\<rfloor>)
             else (\<lfloor>rand 0 * 2\<rfloor>, \<lfloor>rand 1 * 2\<rfloor>, \<lfloor>rand 2 * 2\<rfloor>));
          fatigueIndex = (if brightness f < 100 then min (fatigueIndex + 1) 4 else fatigueIndex);
          browTensionIndex = (if 60 < contrast f then min (browTensionIndex + 1) 4 else browTensionIndex)
      in (js_index FEATURE_LEVELS eyeStrainIndex, js_index FEATURE_LEVELS browTensionIndex,
          js_index FEATURE_LEVELS fatigueIndex))"

text \<open>
  \<^verbatim>\<open>
  function calculateConfidence(features, stressLevel, isBackend = false) {
      if (isBackend) return 89;
      const { imageQuality, skinToneScore } = features;
      let confidence = imageQuality * 60 + skinToneScore * 30;
      confidence += (Math.random() * 15) - 5;
      confidence = Math.max(70, Math.min(95, confidence));
      return Math.round(confidence);
  }
  \<close>
  \<open>u\<close> is the value of \<^verbatim>\<open>Math.random()\<close>.
\<close>

definition jitter :: "rat \<Rightarrow> rat" where
  "jitter u = u * 15 - 5"

definition calculateConfidence :: "features \<Rightarrow> rat \<Rightarrow> bool \<Rightarrow> int" where
  "calculateConfidence f u isBackend =
     (if isBackend then 89
      else
        let confidence' = imageQuality f * 60 + skinToneScore f * 30;
            confidence' = confidence' + jitter u;
            confidence' = max 70 (min 95 confidence')
        in Math_round_rat confidence')"

definition IMAGE_ANALYSIS_FALLBACK :: string where
  "IMAGE_ANALYSIS_FALLBACK = ''Image Analysis (Fallback)''"

text \<open>
  \<^verbatim>\<open>detectClientSideFallback\<close>: the draws of \<^verbatim>\<open>Math.random()\<close> are taken in the order of
  the calls, seven by \<^verbatim>\<open>detectEmotionClientSide\<close>, three by \<^verbatim>\<open>calculateFacialFeatures\<close>
  and one by \<^verbatim>\<open>calculateConfidence\<close>.
\<close>

definition detectClientSideFallback :: "environment \<Rightarrow> detection_result" where
  "detectClientSideFallback env =
     (let f = analyzeImageData (imageLoad env);
          (emotion', allProbabilities') = detectEmotionClientSide f (random env);
          stressLevel' = calculateStressLevel emotion';
          (eyeStrain', browTension', facialFatigue') =
             calculateFacialFeatures stressLevel' f (\<lambda>i. random env (7 + i));
          confidence' = calculateConfidence f (random env 10) False;
          reliefUrgency' = calculateReliefUrgency (key_of stressLevel') emotion' (key_of eyeStrain')
             (key_of browTension') (key_of facialFatigue');
          stressTrends' = analyzeStressTrends (clock env) (localStorage env)
      in \<lparr>emotion = JStr emotion',
          stressLevel = stressLevel',
          eyeStrain = eyeStrain',
          browTension = browTension',
          facialFatigue = facialFatigue',
          confidence = of_int confidence',
          timestamp = nowISO env,
          detectionMethod = IMAGE_ANALYSIS_FALLBACK,
          allProbabilities = Some allProbabilities',
          reliefUrgency = Some reliefUrgency',
          stressTrends = Some stressTrends',
          userName = None,
          userEmail = None\<rparr>)"

section \<open>The landmark analyzer\<close>

text \<open>
  \<^verbatim>\<open>processDetections\<close> works on the first face, \<^verbatim>\<open>detections[0]\<close>; the other faces
  only enter the properties that are left out here. It rounds the expression probabilities to
  percentages, finds the dominant emotion, adjusts the percentages by the facial scores,
  \<^verbatim>\<open>
  if (facialAnalysis.browTensionScore > 0.6 && allProbabilities['Angry'] > 15) {
      allProbabilities['Angry'] = Math.min(100, allProbabilities['Angry'] + 20);
      allProbabilities['Neutral'] = Math.max(0, allProbabilities['Neutral'] - 15);
  }
  if (facialAnalysis.eyeFatigueScore > 0.5) {
      allProbabilities['Sad'] = Math.min(100, allProbabilities['Sad'] + 15);
      allProbabilities['Neutral'] = Math.max(0, allProbabilities['Neutral'] - 10);
  }
  \<close>
  and finds the dominant emotion again, from \<^verbatim>\<open>maxProb = 0\<close> and the emotion found before.
\<close>

definition FACE_API :: string where
  "FACE_API = ''Face-API.js Neural Network''"

definition expression_percentages :: "expressions \<Rightarrow> (string \<times> int) list" where
  "expression_percentages e =
     [(''Neutral'', Math_round_rat (neutral e * 100)), (''Happy'', Math_round_rat (happy e * 100)),
      (''Sad'', Math_round_rat (sad e * 100)), (''Angry'', Math_round_rat (angry e * 100)),
      (''Fearful'', Math_round_rat (fearful e * 100)), (''Disgusted'', Math_round_rat (disgusted e * 100)),
      (''Surprised'', Math_round_rat (surprised e * 100))]"

definition prob_of :: "(string \<times> int) list \<Rightarrow> string \<Rightarrow> int" where
  "prob_of ps k = (case map_of ps k of Some v \<Rightarrow> v | None \<Rightarrow> 0)"

definition set_prob :: "string \<Rightarrow> int \<Rightarrow> (string \<times> int) list \<Rightarrow> (string \<times> int) list" where
  "set_prob k v ps = map (\<lambda>e. if fst e = k then (k, v) else e) ps"

definition adjust :: "facial_analysis \<Rightarrow> (string \<times> int) list \<Rightarrow> (string \<times> int) list" where
  "adjust fa ps =
     (let ps = (if 6 / 10 < browTensionScore fa \<and> 15 < prob_of ps ''Angry''
                then set_prob ''Neutral'' (max 0 (prob_of ps ''Neutral'' - 15))
                       (set_prob ''Angry'' (min 100 (prob_of ps ''Angry'' + 20)) ps)
                else ps)
      in if 1 / 2 < eyeFatigueScore fa
         then set_prob ''Neutral'' (max 0 (prob_of ps ''Neutral'' - 10))
                (set_prob ''Sad'' (min 100 (prob_of ps ''Sad'' + 15)) ps)
         else ps)"

text \<open>
  \<^verbatim>\<open>
  let stressLevel = EMOTIONS[dominantEmotion]?.stressFactor || 'Medium';
  if (facialAnalysis.overallStressScore > 0.7 && stressLevel === 'Low') { stressLevel = 'Medium'; }
  else if (facialAnalysis.overallStressScore > 0.8 && stressLevel === 'Medium') { stressLevel = 'High'; }
  const eyeStrain = FEATURE_LEVELS[Math.min(4, Math.floor(facialAnalysis.eyeFatigueScore * 5))];
  const browTension = FEATURE_LEVELS[Math.min(4, Math.floor(facialAnalysis.browTensionScore * 5))];
  const facialFatigue = FEATURE_LEVELS[Math.min(4, Math.floor(facialAnalysis.fatigueScore * 5))];
  const confidence = Math.round(maxProb * 0.85 + 15);
  \<close>
\<close>

definition stressFactor_or_Medium :: "string \<Rightarrow> string" where
  "stressFactor_or_Medium emotion' =
     (case js_get EMOTIONS emotion' of Own stressFactor \<Rightarrow> stressFactor | _ \<Rightarrow> ''Medium'')"

definition escalate :: "rat \<Rightarrow> string \<Rightarrow> string" where
  "escalate overall level =
     (if 7 / 10 < overall \<and> level = ''Low'' then ''Medium''
      else if 8 / 10 < overall \<and> level = ''Medium'' then ''High''
      else level)"

definition level_of_score :: "rat \<Rightarrow> string option" where
  "level_of_score score = js_index FEATURE_LEVELS (min 4 \<lfloor>score * 5\<rfloor>)"

definition processDetections :: "environment \<Rightarrow> face \<Rightarrow> face list \<Rightarrow> detection_result" where
  "processDetections env detection others =
     (let fa = face_analysis detection;
          ps = expression_percentages (face_expressions detection);
          first_scan = dominant (''Neutral'', 0) ps;
          ps = adjust fa ps;
          (dominantEmotion, maxProb) = dominant (fst first_scan, 0) ps;
          stressLevel' = escalate (overallStressScore fa) (stressFactor_or_Medium dominantEmotion);
          eyeStrain' = level_of_score (eyeFatigueScore fa);
          browTension' = level_of_score (browTensionScore fa);
          facialFatigue' = level_of_score (fatigueScore fa);
          confidence' = Math_round_rat (of_int maxProb * (85 / 100) + 15)
      in \<lparr>emotion = JStr dominantEmotion,
          stressLevel = Some stressLevel',
          eyeStrain = eyeStrain',
          browTension = browTension',
          facialFatigue = facialFatigue',
          confidence = of_int confidence',
          timestamp = nowISO env,
          detectionMethod = FACE_API,
          allProbabilities = Some ps,
          reliefUrgency = Some (calculateReliefUrgency stressLevel' dominantEmotion (key_of eyeStrain')
             (key_of browTension') (key_of facialFatigue')),
          stressTrends = Some (analyzeStressTrends (clock env) (localStorage env)),
          userName = None,
          userEmail = None\<rparr>)"

text \<open>
  \<^verbatim>\<open>detectWithFaceApi\<close> returns \<^verbatim>\<open>null\<close> when the image does not load, when no face is
  found by either detection, and on any exception.
\<close>

definition detectWithFaceApi :: "environment \<Rightarrow> detection_result option" where
  "detectWithFaceApi env =
     (case faceApiRun env of
        Detected detections retryDetections \<Rightarrow>
          (case detections of
             [] \<Rightarrow>
               (case retryDetections of
                  [] \<Rightarrow> None
                | detection # others \<Rightarrow> Some (processDetections env detection others))
           | detection # others \<Rightarrow> Some (processDetections env detection others))
      | _ \<Rightarrow> None)"

text \<open>
  \<^verbatim>\<open>
  async function detectClientSide(imageDataUrl) {
      if (typeof faceapi !== 'undefined') {
          try {
              if (!faceApiModelsLoaded) { await loadFaceApiModels(); }
              if (faceApiModelsLoaded) {
                  const result = await detectWithFaceApi(imageDataUrl);
                  if (result) return result;
              }
          } catch (error) { }
      }
      return await detectClientSideFallback(imageDataUrl);
  }
  \<close>
\<close>

definition detectClientSide :: "environment \<Rightarrow> module_state \<Rightarrow> detection_result \<times> module_state" where
  "detectClientSide env st =
     (if faceapiDefined env then
        (let st = (if \<not> faceApiModelsLoaded st then snd (loadFaceApiModels env st) else st)
         in if faceApiModelsLoaded st then
              (case detectWithFaceApi env of
                 Some result \<Rightarrow> (result, st)
               | None \<Rightarrow> (detectClientSideFallback env, st))
            else (detectClientSideFallback env, st))
      else (detectClientSideFallback env, st))"

section \<open>The orchestrator\<close>

text \<open>
  \<^verbatim>\<open>
  async function detectStress() {
      const imageDataUrl = window.uploadedImage;
      if (!imageDataUrl) {
          return { emotion: 'Neutral', stressLevel: 'Low', eyeStrain: 'Normal', browTension: 'Normal',
                   facialFatigue: 'Normal', confidence: 75, timestamp: new Date().toISOString(),
                   detectionMethod: 'Default' };
      }
      if (backendAvailable === null) { await checkBackendHealth(); }
      if (backendAvailable) {
          try {
              const result = await detectWithBackend(imageDataUrl);
              const currentUser = JSON.parse(localStorage.getItem('currentUser') || '{}');
              result.userName = currentUser.name || 'Anonymous';
              result.userEmail = currentUser.email || '';
              return result;
          } catch (error) { }
      }
      const result = await detectClientSide(imageDataUrl);
      const currentUser = JSON.parse(localStorage.getItem('currentUser') || '{}');
      result.userName = currentUser.name || 'Anonymous';
      result.userEmail = currentUser.email || '';
      return result;
  }
  \<close>
  The result is \<open>Inl\<close> an exception that leaves \<^verbatim>\<open>detectStress\<close>, or \<open>Inr\<close> the result
  object, together with the module state after the call.
\<close>

definition image_supplied :: "environment \<Rightarrow> bool" where
  "image_supplied env = (case uploadedImage env of None \<Rightarrow> False | Some url \<Rightarrow> url \<noteq> [])"

definition default_result :: "environment \<Rightarrow> detection_result" where
  "default_result env =
     \<lparr>emotion = JStr ''Neutral'', stressLevel = Some ''Low'', eyeStrain = Some ''Normal'',
      browTension = Some ''Normal'', facialFatigue = Some ''Normal'', confidence = 75,
      timestamp = nowISO env, detectionMethod = ''Default'', allProbabilities = None,
      reliefUrgency = None, stressTrends = None, userName = None, userEmail = None\<rparr>"

definition add_user_info :: "local_storage \<Rightarrow> detection_result \<Rightarrow> detection_result" where
  "add_user_info store result =
     (case currentUser store of
        None \<Rightarrow> result\<lparr>userName := Some ''Anonymous'', userEmail := Some ''''\<rparr>
      | Some u \<Rightarrow>
          result\<lparr>userName := Some (if user_name u = [] then ''Anonymous'' else user_name u),
                 userEmail := Some (user_email u)\<rparr>)"

definition detectStress :: "environment \<Rightarrow> module_state \<Rightarrow> (js_error + detection_result) \<times> module_state" where
  "detectStress env st =
     (if \<not> image_supplied env then (Inr (default_result env), st)
      else
        let st = (if backendAvailable st = None then snd (checkBackendHealth env st) else st);
            client = (\<lambda>_. let (result, st') = detectClientSide env st
                           in (Inr (add_user_info (localStorage env) result), st'))
        in if backendAvailable st = Some True then
             (case detectWithBackend env of
                Inr result \<Rightarrow> (Inr (add_user_info (localStorage env) result), st)
              | Inl error \<Rightarrow> client ())
           else client ())"

text \<open>The remote inference call is made, and it fails.\<close>

definition remote_call_made :: "environment \<Rightarrow> module_state \<Rightarrow> bool" where
  "remote_call_made env st \<longleftrightarrow>
     image_supplied env \<and>
     backendAvailable (if backendAvailable st = None then snd (checkBackendHealth env st) else st)
       = Some True"

definition remote_call_fails :: "environment \<Rightarrow> bool" where
  "remote_call_fails env \<longleftrightarrow>
     (case detectFetch env of
        Response status body \<Rightarrow>
          \<not> response_ok status \<or>
          (case body of JsonValue result \<Rightarrow> \<not> r_success result | _ \<Rightarrow> True)
      | _ \<Rightarrow> True)"

section \<open>The operations on localStorage\<close>

text \<open>
  The functions of \<^verbatim>\<open>detection.js\<close> and the handlers of the authentication script, by what
  they write to \<^verbatim>\<open>localStorage\<close>. \<^verbatim>\<open>getResultsHistory\<close>, \<^verbatim>\<open>getUserStats\<close>,
  \<^verbatim>\<open>analyzeStressTrends\<close>, \<^verbatim>\<open>detectStress\<close> and \<^verbatim>\<open>checkAuth\<close> only read. Registration
  appends a user unless the email is taken; login stores the matching active user as the
  current one; logout removes the current user.
\<close>

datatype operation =
    SaveResult detection_result
  | GetResultsHistory
  | GetUserStats
  | AnalyzeStressTrends
  | DetectStress
  | CheckAuth
  | Register account
  | Login string string
  | Logout




section \<open>Example inputs\<close>

text \<open>
  A stored result with a given stress level and timestamp; a calendar in the UTC time zone
  whose clock reads 2026-01-07T12:00:00.000Z and whose parser knows three timestamps; a
  store holding a given history; and a history of two High-stress results, the first at
  14:10 and the second, a day later, at 09:30.
\<close>

definition example_result :: "string \<Rightarrow> string \<Rightarrow> detection_result" where
  "example_result level time =
     \<lparr>emotion = JStr ''Angry'', stressLevel = Some level, eyeStrain = Some ''Mild'',
      browTension = Some ''Mild'', facialFatigue = Some ''High'', confidence = 80,
      timestamp = time, detectionMethod = ''Image Analysis (Fallback)'',
      allProbabilities = None, reliefUrgency = Some (Num 9), stressTrends = None,
      userName = Some ''Anonymous'', userEmail = Some ''''\<rparr>"

definition example_calendar :: calendar where
  "example_calendar =
     \<lparr>Date_parse = map_of
        [(''2025-12-20T08:00:00.000Z'', 1766217600000),
         (''2026-01-05T14:10:00.000Z'', 1767622200000),
         (''2026-01-06T09:30:00.000Z'', 1767691800000)],
      LocalTZA = (\<lambda>_. 0), LocalTZA_local = (\<lambda>_. 0), nowAt = (\<lambda>_. 1767787200000)\<rparr>"

definition example_storage :: "detection_result list \<Rightarrow> local_storage" where
  "example_storage rs = \<lparr>stressResults = Some rs, currentUser = None, users = None\<rparr>"

definition example_history :: "detection_result list" where
  "example_history =
     [example_result ''High'' ''2026-01-05T14:10:00.000Z'',
      example_result ''High'' ''2026-01-06T09:30:00.000Z'']"

text \<open>
  An environment in which the backend answers the health probe with HTTP 500 and the
  detection request with a successful result, face-api.js is not loaded and the image does
  not decode; and the initial state of the module.
\<close>

definition example_response :: backend_response where
  "example_response =
     \<lparr>r_success = True, r_error = None, r_emotion = Some ''happy'', r_stressLevel = Some ''Low'',
      r_eyeStrain = None, r_browTension = None, r_facialFatigue = None, r_confidence = Some 91\<rparr>"

definition example_env :: environment where
  "example_env =
     \<lparr>uploadedImage = Some ''data:image/png;base64,AAAA'',
      healthFetch = Response 500 NotJson,
      detectFetch = Response 200 (JsonValue example_response),
      faceapiDefined = False,
      mirrorLoads = (\<lambda>_. [False, False, False]),
      faceApiRun = ImageLoadFails,
      imageLoad = DecodeError,
      random = (\<lambda>_. 1 / 2),
      nowISO = ''2026-01-07T12:00:00.000Z'',
      clock = example_calendar,
      localStorage = example_storage []\<rparr>"

definition initial_state :: module_state where
  "initial_state = \<lparr>backendAvailable = None, faceApiModelsLoaded = False, modelLoadCalls = 0\<rparr>"


section \<open>Proofs\<close>

subsection \<open>Binary64 rounding and the relief urgency\<close>

lemma bits_0: "bits 0 = 0"
  by (simp add: bits.simps)

lemma bits_pos: "0 < n \<Longrightarrow> bits n = Suc (bits (n div 2))"
  by (subst bits.simps) simp

text \<open>The rules that evaluate an operation on numerals.\<close>

lemmas double_eval =
  bits_0 bits_pos round53_def round_quot_def dadd_def of_integer_def Math_round_def Let_def












lemma feature_values:
  "of_integer 0 = Double 0 0"
  "round_quot 3 10 = Double 5404319552844595 (- 54)"
  "round_quot 6 10 = Double 5404319552844595 (- 53)"
  "round_quot 9 10 = Double 8106479329266893 (- 53)"
  "round_quot 12 10 = Double 5404319552844595 (- 52)"
  by (simp_all add: double_eval)

text \<open>
  The literals are the binary64 numbers of the source: each lies within less than half a
  unit in the last place of its decimal fraction.
\<close>

lemma decimal_literals_nearest:
  "\<bar>dval (round_quot 3 10) - 3 / 10\<bar> < 1 / 2 ^ 55"
  "\<bar>dval (round_quot 6 10) - 6 / 10\<bar> < 1 / 2 ^ 54"
  "\<bar>dval (round_quot 9 10) - 9 / 10\<bar> < 1 / 2 ^ 54"
  "\<bar>dval (round_quot 12 10) - 12 / 10\<bar> < 1 / 2 ^ 53"
  by (simp_all add: feature_values dval_def power_int_minus)









subsection \<open>Peak hours and the seven-day window\<close>

lemma fold_counts:
  "fold (\<lambda>hour counts. counts(hour := counts hour + 1)) hours c h = c h + count_list hours h"
  by (induction hours arbitrary: c) auto

lemma hourCounts_count: "hourCounts hours h = count_list hours h"
  using fold_counts [of hours "\<lambda>_. 0" h] by (simp add: hourCounts_def)

lemma insort_peak:
  fixes f :: "nat \<times> nat \<Rightarrow> int"
  assumes "sorted_wrt (\<lambda>a b. f a < f b \<or> (f a = f b \<and> fst a < fst b)) ys"
    and "\<forall>y\<in>set ys. fst x < fst y"
  shows "sorted_wrt (\<lambda>a b. f a < f b \<or> (f a = f b \<and> fst a < fst b)) (insort_key f x ys)"
  using assms
proof (induction ys)
  case Nil
  then show ?case by simp
next
  case (Cons y ys)
  show ?case
  proof (cases "f x \<le> f y")
    case True
    then have "\<forall>z\<in>set (y # ys). f x < f z \<or> (f x = f z \<and> fst x < fst z)"
      using Cons.prems by fastforce
    then show ?thesis using True Cons.prems(1) by simp
  next
    case False
    then show ?thesis using Cons by (auto simp: set_insort_key)
  qed
qed

lemma sort_key_peak:
  fixes f :: "nat \<times> nat \<Rightarrow> int"
  assumes "sorted_wrt (\<lambda>a b. fst a < fst b) xs"
  shows "sorted_wrt (\<lambda>a b. f a < f b \<or> (f a = f b \<and> fst a < fst b)) (sort_key f xs)"
  using assms
proof (induction xs)
  case Nil
  then show ?case by simp
next
  case (Cons x xs)
  then have "sorted_wrt (\<lambda>a b. f a < f b \<or> (f a = f b \<and> fst a < fst b)) (sort_key f xs)"
    and "\<forall>y\<in>set (sort_key f xs). fst x < fst y" by auto
  then show ?case by (simp add: insort_peak)
qed

lemma entries_sorted: "sorted_wrt (\<lambda>a b. fst a < fst b) (Object_entries c)"
proof -
  have "sorted_wrt (<) (filter (\<lambda>h. 0 < c h) [0..<24])"
    by (rule sorted_wrt_filter) simp
  then show ?thesis by (simp add: Object_entries_def sorted_wrt_map)
qed

lemma entries_set: "set (Object_entries c) = {(h, c h) | h. h < 24 \<and> 0 < c h}"
  by (auto simp: Object_entries_def)

lemma peak_hours_sorted_entries:
  "sorted_wrt (\<lambda>a b. peak_before c (fst a) (fst b)) (sort_key (\<lambda>e. - int (snd e)) (Object_entries c))"
proof -
  let ?f = "\<lambda>e::nat \<times> nat. - int (snd e)"
  let ?xs = "sort_key ?f (Object_entries c)"
  have s: "sorted_wrt (\<lambda>a b. ?f a < ?f b \<or> (?f a = ?f b \<and> fst a < fst b)) ?xs"
    by (rule sort_key_peak) (rule entries_sorted)
  have "\<forall>a\<in>set ?xs. snd a = c (fst a)" by (auto simp: entries_set)
  then show ?thesis
    by (intro sorted_wrt_mono_rel [OF _ s]) (auto simp: peak_before_def)
qed

lemma peak_hours_props:
  fixes hours :: "nat list"
  defines "c \<equiv> count_list hours"
  defines "ps \<equiv> peak_hours hours"
  shows "length ps \<le> 3"
    and "\<forall>h\<in>set ps. h < 24 \<and> 0 < c h"
    and "sorted_wrt (peak_before c) ps"
    and "\<forall>h. h < 24 \<and> 0 < c h \<and> h \<notin> set ps \<longrightarrow> length ps = 3 \<and> (\<forall>p\<in>set ps. peak_before c p h)"
proof -
  let ?xs = "sort_key (\<lambda>e. - int (snd e)) (Object_entries c)"
  have hc: "hourCounts hours = c" by (rule ext) (simp add: hourCounts_count c_def)
  have ps: "ps = map fst (take 3 ?xs)" by (simp add: ps_def peak_hours_def hc)
  have s: "sorted_wrt (\<lambda>a b. peak_before c (fst a) (fst b)) ?xs" by (rule peak_hours_sorted_entries)
  have set: "set ?xs = {(h, c h) | h. h < 24 \<and> 0 < c h}" by (simp add: entries_set)
  show "length ps \<le> 3" by (simp add: ps)
  show "\<forall>h\<in>set ps. h < 24 \<and> 0 < c h"
  proof
    fix h assume "h \<in> set ps"
    then obtain e where "e \<in> set (take 3 ?xs)" "h = fst e" by (auto simp: ps)
    then have "e \<in> set ?xs" by (meson in_set_takeD)
    with set \<open>h = fst e\<close> show "h < 24 \<and> 0 < c h" by auto
  qed
  have split: "?xs = take 3 ?xs @ drop 3 ?xs" by simp
  have s': "sorted_wrt (\<lambda>a b. peak_before c (fst a) (fst b)) (take 3 ?xs)
      \<and> (\<forall>a\<in>set (take 3 ?xs). \<forall>b\<in>set (drop 3 ?xs). peak_before c (fst a) (fst b))"
    using s sorted_wrt_append [of "\<lambda>a b. peak_before c (fst a) (fst b)" "take 3 ?xs" "drop 3 ?xs"]
    by simp
  then show "sorted_wrt (peak_before c) ps"
    by (simp add: ps sorted_wrt_map)
  show "\<forall>h. h < 24 \<and> 0 < c h \<and> h \<notin> set ps \<longrightarrow> length ps = 3 \<and> (\<forall>p\<in>set ps. peak_before c p h)"
  proof (intro allI impI)
    fix h assume h: "h < 24 \<and> 0 < c h \<and> h \<notin> set ps"
    then have "(h, c h) \<in> set ?xs" using set by blast
    then have "(h, c h) \<in> set (take 3 ?xs) \<or> (h, c h) \<in> set (drop 3 ?xs)"
      by (metis Un_iff set_append split)
    moreover have "(h, c h) \<notin> set (take 3 ?xs)" using h by (force simp: ps)
    ultimately have d: "(h, c h) \<in> set (drop 3 ?xs)" by blast
    then have "drop 3 ?xs \<noteq> []" by auto
    then have l: "length ps = 3" by (simp add: ps)
    from s' d have "\<forall>a\<in>set (take 3 ?xs). peak_before c (fst a) h"
      by fastforce
    then show "length ps = 3 \<and> (\<forall>p\<in>set ps. peak_before c p h)" using l by (auto simp: ps)
  qed
qed

text \<open>Where the offset of local time does not change, the window is seven times 24 hours.\<close>

lemma weekAgo_fixed_offset:
  assumes "\<And>t. LocalTZA cal t = offset" "\<And>t. LocalTZA_local cal t = offset"
  shows "weekAgo cal now = now - 604800000"
  by (simp add: weekAgo_def UTC_def LocalTime_def msPerDay_def assms)



lemma example_times:
  "nowAt example_calendar i = 1767787200000"
  "weekAgo example_calendar 1767787200000 = 1767182400000"
  "Date_parse example_calendar ''2025-12-20T08:00:00.000Z'' = Some 1766217600000"
  "Date_parse example_calendar ''2026-01-05T14:10:00.000Z'' = Some 1767622200000"
  "Date_parse example_calendar ''2026-01-06T09:30:00.000Z'' = Some 1767691800000"
  "getHours example_calendar 1767622200000 = 14"
  "getHours example_calendar 1767691800000 = 9"
  by (simp_all add: weekAgo_def UTC_def LocalTime_def getHours_def example_calendar_def
      msPerDay_def msPerHour_def)

lemma getHours_lt: "getHours cal t < 24"
  by (simp add: getHours_def nat_less_iff)

text \<open>Every entry that the filter keeps has a timestamp that parses, and so an hour.\<close>

lemma last7Days_from_parses:
  "r \<in> set (last7Days_from cal i rs) \<Longrightarrow> \<exists>date. Date_parse cal (timestamp r) = Some date"
  by (induction rs arbitrary: i) (auto simp: in_window_def split: if_splits option.splits)

lemma last7Days_hour: "r \<in> set (last7Days cal st) \<Longrightarrow> \<exists>h. hour_of cal r = Some h \<and> h < 24"
  using last7Days_from_parses [of r cal 0 "getResultsHistory st"]
  by (auto simp: last7Days_def hour_of_def getHours_lt)

lemma high_hours_count:
  "count_list (high_hours cal rs) h =
     length (filter (\<lambda>r. stressLevel r = Some ''High'' \<and> hour_of cal r = Some h) rs)"
  by (induction rs) (auto simp: high_hours_def List.map_filter_def)

lemma high_count_eq: "high_count cal st = count_list (high_hours cal (last7Days cal st))"
  by (rule ext) (simp add: high_count_def high_hours_count)

lemma high_hours_lt: "h \<in> set (high_hours cal rs) \<Longrightarrow> h < 24"
  by (auto simp: high_hours_def List.map_filter_def hour_of_def getHours_lt)

lemma high_count_pos_lt: "0 < high_count cal st h \<Longrightarrow> h < 24"
proof -
  assume "0 < high_count cal st h"
  then have "count_list (high_hours cal (last7Days cal st)) h \<noteq> 0" by (simp add: high_count_eq)
  then have "h \<in> set (high_hours cal (last7Days cal st))" by (simp add: count_list_0_iff)
  then show ?thesis by (rule high_hours_lt)
qed

text \<open>
  Claim C7, as the code has it. When some entry lies in the last seven days, \<open>peakTimes\<close>
  lists at most three hours of the day (0 to 23), each with at least one High-stress entry,
  in descending order of their High-stress counts, hours with equal counts in ascending
  order of the hour; every hour with a High-stress entry that is left out comes after all
  three listed ones in that order.
\<close>

theorem peakTimes_top3_ties_by_hour:
  assumes "last7Days cal st \<noteq> []"
  shows "length (peakTimes (analyzeStressTrends cal st)) \<le> 3
    \<and> (\<forall>h\<in>set (peakTimes (analyzeStressTrends cal st)). h < 24 \<and> 0 < high_count cal st h)
    \<and> sorted_wrt (peak_before (high_count cal st)) (peakTimes (analyzeStressTrends cal st))
    \<and> (\<forall>h. 0 < high_count cal st h \<and> h \<notin> set (peakTimes (analyzeStressTrends cal st)) \<longrightarrow>
          length (peakTimes (analyzeStressTrends cal st)) = 3
          \<and> (\<forall>p\<in>set (peakTimes (analyzeStressTrends cal st)). peak_before (high_count cal st) p h))"
proof -
  have p: "peakTimes (analyzeStressTrends cal st) = peak_hours (high_hours cal (last7Days cal st))"
    using assms by (simp add: analyzeStressTrends_def Let_def)
  note props = peak_hours_props [of "high_hours cal (last7Days cal st)", folded high_count_eq p]
  from props(4) high_count_pos_lt [of cal st]
  have "\<forall>h. 0 < high_count cal st h \<and> h \<notin> set (peakTimes (analyzeStressTrends cal st)) \<longrightarrow>
          length (peakTimes (analyzeStressTrends cal st)) = 3
          \<and> (\<forall>p\<in>set (peakTimes (analyzeStressTrends cal st)). peak_before (high_count cal st) p h)"
    by blast
  with props(1,2,3) show ?thesis by blast
qed

lemma example_last7Days:
  "last7Days example_calendar (example_storage example_history) = example_history"
  by (simp add: last7Days_def getResultsHistory_def example_storage_def example_history_def
      in_window_def example_result_def example_times)

lemma example_high_hours: "high_hours example_calendar example_history = [14, 9]"
  by (simp add: high_hours_def example_history_def example_result_def List.map_filter_def
      hour_of_def example_times)

theorem peakTimes_top3_ties_by_hour_witness:
  "last7Days example_calendar (example_storage example_history) \<noteq> []
   \<and> sorted_wrt (peak_before (high_count example_calendar (example_storage example_history)))
        (peakTimes (analyzeStressTrends example_calendar (example_storage example_history)))
   \<and> length (peakTimes (analyzeStressTrends example_calendar (example_storage example_history))) \<le> 3"
proof -
  have h: "last7Days example_calendar (example_storage example_history) \<noteq> []"
    unfolding example_last7Days by (simp add: example_history_def)
  from peakTimes_top3_ties_by_hour [OF h] h show ?thesis by blast
qed

text \<open>
  Two High-stress entries, the first at 14 h and the second at 9 h: the hour met first is
  14, and the code lists 9 before it.
\<close>

theorem peakTimes_first_encountered_counterexample:
  "peakTimes (analyzeStressTrends example_calendar (example_storage example_history)) = [9, 14]
   \<and> peak_hours_spec (high_hours example_calendar
        (last7Days example_calendar (example_storage example_history))) = [14, 9]"
proof
  have e: "example_history \<noteq> []" by (simp add: example_history_def)
  have c: "hourCounts [14, 9] = (\<lambda>h. if h = 9 \<or> h = 14 then 1 else 0)"
    by (rule ext) (simp add: hourCounts_count)
  have u: "[0..<24] = [0, 1, 2, 3, 4, 5, 6, 7, 8, 9, 10, 11, 12, 13, 14, 15, 16, 17, 18, 19, 20, 21, 22, 23]"
    by (simp add: upt_rec)
  have "peak_hours [14, 9] = [9, 14]"
    by (simp add: peak_hours_def c Object_entries_def u)
  then show "peakTimes (analyzeStressTrends example_calendar (example_storage example_history)) = [9, 14]"
    using e by (simp add: analyzeStressTrends_def example_last7Days example_high_hours Let_def)
  show "peak_hours_spec (high_hours example_calendar
        (last7Days example_calendar (example_storage example_history))) = [14, 9]"
    by (simp add: example_last7Days example_high_hours peak_hours_spec_def first_encountered_def)
qed

text \<open>
  The whole trend of the example history: two High-stress entries average 3 in each half, so
  the trend is stable, the average level High and the improvement rate 0.
\<close>

lemma example_averages:
  "average example_history = Some (Double 6755399441055744 (- 51))"
  "average (take 1 example_history) = Some (Double 6755399441055744 (- 51))"
  "average (drop 1 example_history) = Some (Double 6755399441055744 (- 51))"
  by (simp_all add: average_def example_history_def example_result_def js_get_def stressValues_def
      key_of_def round_quot_def round53_def bits_0 bits_pos Let_def)

lemma example_trend:
  "analyzeStressTrends example_calendar (example_storage example_history) =
     \<lparr>trend = ''stable'', avgStress = Some ''High'', peakTimes = [9, 14],
      totalScansThisWeek = Some 2, improvementRate = Num 0\<rparr>"
proof -
  have e: "example_history \<noteq> []" "length example_history = 2" by (simp_all add: example_history_def)
  have c: "hourCounts [14, 9] = (\<lambda>h. if h = 9 \<or> h = 14 then 1 else 0)"
    by (rule ext) (simp add: hourCounts_count)
  have u: "[0..<24] = [0, 1, 2, 3, 4, 5, 6, 7, 8, 9, 10, 11, 12, 13, 14, 15, 16, 17, 18, 19, 20, 21, 22, 23]"
    by (simp add: upt_rec)
  have p: "peak_hours [14, 9] = [9, 14]"
    by (simp add: peak_hours_def c Object_entries_def u)
  have t: "trend_of (Some (Double 6755399441055744 (- 51))) (Some (Double 6755399441055744 (- 51))) = ''stable''"
    by (simp add: trend_of_def dless_def dsub_def dadd_def round_quot_def round53_def bits_0 bits_pos
        Let_def dval_def power_int_minus)
  have i: "improvement_of (Some (Double 6755399441055744 (- 51))) (Some (Double 6755399441055744 (- 51))) = Num 0"
    by (simp add: improvement_of_def dsub_def dadd_def dmul_def Math_round_def round_quot_def round53_def
        bits_0 bits_pos Let_def)
  have a: "\<not> dle (Some (Double 6755399441055744 (- 51))) (Some (round_quot 15 10))"
    "\<not> dle (Some (Double 6755399441055744 (- 51))) (Some (round_quot 25 10))"
    by (simp_all add: dle_def round_quot_def round53_def bits_0 bits_pos Let_def dval_def power_int_minus)
  show ?thesis
    using e a
    by (simp add: analyzeStressTrends_def example_last7Days example_high_hours example_averages
        p t i Let_def flip: One_nat_def)
qed

subsection \<open>Alias normalization and the health probe\<close>

lemma normalizeEmotion_alias:
  "(alias, canonical) \<in> set EMOTION_ALIASES \<Longrightarrow> normalizeEmotion (JStr alias) = JStr canonical"
proof -
  assume "(alias, canonical) \<in> set EMOTION_ALIASES"
  moreover have "distinct (map fst EMOTION_ALIASES)" by (simp add: EMOTION_ALIASES_def)
  ultimately have "map_of EMOTION_ALIASES alias = Some canonical" by simp
  then show ?thesis by (simp add: normalizeEmotion_def js_get_def)
qed

lemma normalizeEmotion_unlisted:
  "s \<notin> fst ` set EMOTION_ALIASES \<Longrightarrow> s \<notin> set OBJECT_PROTOTYPE_KEYS \<Longrightarrow>
   normalizeEmotion (JStr s) = JStr s"
proof -
  assume "s \<notin> fst ` set EMOTION_ALIASES" and k: "s \<notin> set OBJECT_PROTOTYPE_KEYS"
  then have "map_of EMOTION_ALIASES s = None" by (simp add: map_of_eq_None_iff)
  with k show ?thesis by (simp add: normalizeEmotion_def js_get_def)
qed

lemma normalizeEmotion_idempotent: "normalizeEmotion (normalizeEmotion v) = normalizeEmotion v"
proof (cases v)
  case (JStr s)
  show ?thesis
  proof (cases "js_get EMOTION_ALIASES s")
    case (Own c)
    then have "map_of EMOTION_ALIASES s = Some c"
      by (simp add: js_get_def split: option.splits if_splits)
    then have "(s, c) \<in> set EMOTION_ALIASES" by (rule map_of_SomeD)
    then have "c \<in> snd ` set EMOTION_ALIASES" by force
    then have "c \<in> {''Fearful'', ''Disgusted'', ''Surprised'', ''Happy'', ''Sad'', ''Angry'', ''Neutral''}"
      by (simp add: EMOTION_ALIASES_def) (elim disjE, simp_all)
    then have "normalizeEmotion (JStr c) = JStr c"
      by (elim insertE emptyE)
         (simp_all add: normalizeEmotion_def js_get_def EMOTION_ALIASES_def OBJECT_PROTOTYPE_KEYS_def)
    then show ?thesis using Own JStr by (simp add: normalizeEmotion_def)
  next
    case (Inherited k)
    then show ?thesis using JStr by (simp add: normalizeEmotion_def)
  next
    case Undefined
    then show ?thesis using JStr by (simp add: normalizeEmotion_def)
  qed
qed (simp_all add: normalizeEmotion_def)

text \<open>
  Claim C4 at the string \<^verbatim>\<open>"constructor"\<close>, which is no alias of the table:
  \<^verbatim>\<open>EMOTION_ALIASES["constructor"]\<close> is the inherited function \<^verbatim>\<open>Object\<close>, a truthy value,
  so the emotion becomes that function and does not pass through unchanged.
\<close>

theorem normalizeEmotion_constructor:
  "''constructor'' \<notin> fst ` set EMOTION_ALIASES
   \<and> normalizeEmotion (JStr ''constructor'') = JBuiltin ''constructor''
   \<and> emotion (projr (detectWithBackend
        (example_env\<lparr>detectFetch := Response 200
           (JsonValue (example_response\<lparr>r_emotion := Some ''constructor''\<rparr>))\<rparr>)))
       = JBuiltin ''constructor''"
  by (simp add: EMOTION_ALIASES_def normalizeEmotion_def js_get_def OBJECT_PROTOTYPE_KEYS_def
      detectWithBackend_def example_env_def example_response_def response_ok_def)

lemma health_catch_effect:
  "health_catch env st =
     (False, snd (loadFaceApiModels env (st\<lparr>backendAvailable := Some False\<rparr>)))"
  by (simp add: health_catch_def Let_def split: prod.splits)

lemma loadFaceApiModels_effect:
  "backendAvailable (snd (loadFaceApiModels env st)) = backendAvailable st
   \<and> modelLoadCalls (snd (loadFaceApiModels env st)) = Suc (modelLoadCalls st)"
  by (simp add: loadFaceApiModels_def Let_def)

lemma checkBackendHealth_failure:
  assumes "healthFetch env = NetworkError \<or> healthFetch env = Aborted
      \<or> (\<exists>status. response_ok status \<and>
            (healthFetch env = Response status NotJson \<or> healthFetch env = Response status JsonNull))"
  shows "fst (checkBackendHealth env st) = False
    \<and> backendAvailable (snd (checkBackendHealth env st)) = Some False
    \<and> modelLoadCalls (snd (checkBackendHealth env st)) = Suc (modelLoadCalls st)"
  using assms
  by (auto simp: checkBackendHealth_def health_catch_effect loadFaceApiModels_effect)

lemma checkBackendHealth_healthy:
  assumes "healthFetch env = Response 200 (JsonValue (Some ''healthy''))"
  shows "checkBackendHealth env st = (True, st\<lparr>backendAvailable := Some True\<rparr>)"
  using assms by (simp add: checkBackendHealth_def response_ok_def)

lemma checkBackendHealth_unhealthy_payload:
  assumes "healthFetch env = Response status (JsonValue data)" "response_ok status" "data \<noteq> Some ''healthy''"
  shows "checkBackendHealth env st = (True, st\<lparr>backendAvailable := Some False\<rparr>)"
  using assms by (simp add: checkBackendHealth_def)

lemma checkBackendHealth_not_ok:
  assumes "healthFetch env = Response status body" "\<not> response_ok status"
  shows "checkBackendHealth env st = (False, st)"
  using assms by (simp add: checkBackendHealth_def)

text \<open>
  Claim C5 at a response with HTTP status 500: \<^verbatim>\<open>response.ok\<close> is false, no exception is
  thrown and the \<^verbatim>\<open>catch\<close> block does not run. The availability flag keeps its value
  \<^verbatim>\<open>null\<close> instead of becoming \<^verbatim>\<open>false\<close>, and \<^verbatim>\<open>loadFaceApiModels\<close> is not called.
\<close>

theorem checkBackendHealth_http_500:
  "healthFetch example_env = Response 500 NotJson
   \<and> checkBackendHealth example_env initial_state = (False, initial_state)
   \<and> backendAvailable (snd (checkBackendHealth example_env initial_state)) = None
   \<and> modelLoadCalls (snd (checkBackendHealth example_env initial_state)) = 0"
  by (simp add: checkBackendHealth_def example_env_def initial_state_def response_ok_def)

subsection \<open>The result log\<close>






subsection \<open>The percentages of the pixel heuristic\<close>











subsection \<open>The confidence of the pixel heuristic\<close>






subsection \<open>The fallback chain\<close>

lemma method_processDetections: "detectionMethod (processDetections env d ds) = FACE_API"
  by (simp add: processDetections_def Let_def split: prod.splits)

lemma method_fallback: "detectionMethod (detectClientSideFallback env) = IMAGE_ANALYSIS_FALLBACK"
  by (simp add: detectClientSideFallback_def Let_def split: prod.splits)

lemma method_faceapi: "detectWithFaceApi env = Some r \<Longrightarrow> detectionMethod r = FACE_API"
  by (auto simp: detectWithFaceApi_def method_processDetections split: faceapi_run.splits list.splits)

lemma method_client:
  "detectionMethod (fst (detectClientSide env st)) = FACE_API
   \<or> detectionMethod (fst (detectClientSide env st)) = IMAGE_ANALYSIS_FALLBACK"
  by (auto simp: detectClientSide_def Let_def method_fallback method_faceapi split: option.splits)

lemma method_add_user_info: "detectionMethod (add_user_info store r) = detectionMethod r"
  by (simp add: add_user_info_def split: option.splits)

lemma remote_failure: "remote_call_fails env \<Longrightarrow> \<exists>e. detectWithBackend env = Inl e"
  by (auto simp: remote_call_fails_def detectWithBackend_def
      split: fetch_result.splits response_body.splits)

lemma tags_differ: "FACE_API \<noteq> CNN_BACKEND" "IMAGE_ANALYSIS_FALLBACK \<noteq> CNN_BACKEND"
  by (simp_all add: FACE_API_def CNN_BACKEND_def IMAGE_ANALYSIS_FALLBACK_def)

lemma detectStress_returns: "\<exists>r st'. detectStress env st = (Inr r, st')"
  by (auto simp: detectStress_def Let_def split: sum.splits prod.splits)

text \<open>
  Claim C2. When an image is supplied, the backend counts as available and the remote
  inference call fails (the request is rejected by a network error or a timeout of the
  network stack, the status is not 2xx, the body is no JSON object, or it reports
  \<^verbatim>\<open>success: false\<close>), \<open>detectStress\<close> returns a result and no exception: the result comes
  from the landmark analyzer or from the pixel heuristic, and its \<open>detectionMethod\<close> is not
  the tag of the CNN backend.
\<close>

theorem detectStress_falls_back:
  assumes "remote_call_made env st" "remote_call_fails env"
  shows "\<exists>r st'. detectStress env st = (Inr r, st')
    \<and> detectionMethod r \<noteq> CNN_BACKEND
    \<and> (detectionMethod r = FACE_API \<or> detectionMethod r = IMAGE_ANALYSIS_FALLBACK)"
proof -
  define st1 where
    "st1 = (if backendAvailable st = None then snd (checkBackendHealth env st) else st)"
  from assms(1) have img: "image_supplied env" and av: "backendAvailable st1 = Some True"
    by (simp_all add: remote_call_made_def st1_def)
  from remote_failure [OF assms(2)] obtain e where e: "detectWithBackend env = Inl e" by blast
  have "detectStress env st =
      (Inr (add_user_info (localStorage env) (fst (detectClientSide env st1))),
       snd (detectClientSide env st1))"
    using img av e by (simp add: detectStress_def Let_def st1_def split: prod.splits)
  moreover have "detectionMethod (add_user_info (localStorage env) (fst (detectClientSide env st1))) = FACE_API
      \<or> detectionMethod (add_user_info (localStorage env) (fst (detectClientSide env st1))) = IMAGE_ANALYSIS_FALLBACK"
    using method_client [of env st1] by (simp add: method_add_user_info)
  ultimately show ?thesis using tags_differ by auto
qed

theorem detectStress_falls_back_witness:
  "remote_call_made (example_env\<lparr>detectFetch := Response 500 NotJson\<rparr>)
     (initial_state\<lparr>backendAvailable := Some True\<rparr>)
   \<and> remote_call_fails (example_env\<lparr>detectFetch := Response 500 NotJson\<rparr>)
   \<and> (\<exists>r st'. detectStress (example_env\<lparr>detectFetch := Response 500 NotJson\<rparr>)
         (initial_state\<lparr>backendAvailable := Some True\<rparr>) = (Inr r, st')
       \<and> detectionMethod r \<noteq> CNN_BACKEND
       \<and> detectionMethod r = IMAGE_ANALYSIS_FALLBACK)"
proof -
  let ?env = "example_env\<lparr>detectFetch := Response 500 NotJson\<rparr>"
  let ?st = "initial_state\<lparr>backendAvailable := Some True\<rparr>"
  have m: "remote_call_made ?env ?st"
    by (simp add: remote_call_made_def image_supplied_def example_env_def initial_state_def)
  have f: "remote_call_fails ?env"
    by (simp add: remote_call_fails_def example_env_def response_ok_def)
  from detectStress_falls_back [OF m f] obtain r st' where
    r: "detectStress ?env ?st = (Inr r, st')" "detectionMethod r \<noteq> CNN_BACKEND"
       "detectionMethod r = FACE_API \<or> detectionMethod r = IMAGE_ANALYSIS_FALLBACK" by blast
  have "detectClientSide ?env ?st = (detectClientSideFallback ?env, ?st)"
    by (simp add: detectClientSide_def example_env_def)
  then have "fst (detectStress ?env ?st) = Inr (add_user_info (localStorage ?env) (detectClientSideFallback ?env))"
    using m f
    by (simp add: detectStress_def Let_def remote_call_made_def initial_state_def
        detectWithBackend_def example_env_def response_ok_def)
  with r(1) have "detectionMethod r = IMAGE_ANALYSIS_FALLBACK"
    by (auto simp: method_add_user_info method_fallback)
  with m f r show ?thesis by blast
qed

subsection \<open>Relief urgency and trends on each path\<close>

lemma score_or_not_inherited:
  "key \<notin> set OBJECT_PROTOTYPE_KEYS \<Longrightarrow> \<exists>v. score_or table key dflt = Some v"
  by (simp add: score_or_def js_get_def split: option.splits)

lemma calculateReliefUrgency_range:
  assumes "level \<notin> set OBJECT_PROTOTYPE_KEYS" "eye \<notin> set OBJECT_PROTOTYPE_KEYS"
    "brow \<notin> set OBJECT_PROTOTYPE_KEYS" "fatigue \<notin> set OBJECT_PROTOTYPE_KEYS"
  shows "\<exists>u. calculateReliefUrgency level emo eye brow fatigue = Num u \<and> 1 \<le> u \<and> u \<le> 10"
proof -
  from score_or_not_inherited [OF assms(1)] obtain b where
    b: "score_or stressScores level (of_integer 5) = Some b" by blast
  from score_or_not_inherited [OF assms(2)] obtain s1 where
    s1: "score_or featureLevelScores eye (of_integer 0) = Some s1" by blast
  from score_or_not_inherited [OF assms(3)] obtain s2 where
    s2: "score_or featureLevelScores brow (of_integer 0) = Some s2" by blast
  from score_or_not_inherited [OF assms(4)] obtain s3 where
    s3: "score_or featureLevelScores fatigue (of_integer 0) = Some s3" by blast
  show ?thesis by (simp add: calculateReliefUrgency_def b s1 s2 s3 Let_def)
qed

lemma feature_levels_safe: "l \<in> set FEATURE_LEVELS \<Longrightarrow> l \<notin> set OBJECT_PROTOTYPE_KEYS"
  unfolding FEATURE_LEVELS_def
  by (simp only: list.set) (elim insertE emptyE, simp_all add: OBJECT_PROTOTYPE_KEYS_def)

lemma feature_key_safe: "key_of (js_index FEATURE_LEVELS i) \<notin> set OBJECT_PROTOTYPE_KEYS"
proof (cases "0 \<le> i \<and> i < int (length FEATURE_LEVELS)")
  case True
  then have "nat i < length FEATURE_LEVELS" by linarith
  then have "FEATURE_LEVELS ! nat i \<in> set FEATURE_LEVELS" by (rule nth_mem)
  then have "FEATURE_LEVELS ! nat i \<notin> set OBJECT_PROTOTYPE_KEYS" by (rule feature_levels_safe)
  then show ?thesis using True by (simp add: js_index_def key_of_def)
next
  case False
  then have "js_index FEATURE_LEVELS i = None" unfolding js_index_def by (rule if_not_P)
  then show ?thesis by (simp add: key_of_def OBJECT_PROTOTYPE_KEYS_def)
qed

lemma stress_values_safe:
  "s \<in> {''Low'', ''Medium'', ''High'', ''undefined''} \<Longrightarrow> s \<notin> set OBJECT_PROTOTYPE_KEYS"
  by (elim insertE emptyE) (simp_all add: OBJECT_PROTOTYPE_KEYS_def)

lemma EMOTIONS_values: "map_of EMOTIONS e = Some v \<Longrightarrow> v \<in> {''Low'', ''Medium'', ''High''}"
proof -
  assume "map_of EMOTIONS e = Some v"
  then have "(e, v) \<in> set EMOTIONS" by (rule map_of_SomeD)
  then have "v \<in> snd ` set EMOTIONS" by force
  then show ?thesis by (simp add: EMOTIONS_def) (elim disjE, simp_all)
qed

lemma calculateStressLevel_safe: "key_of (calculateStressLevel e) \<notin> set OBJECT_PROTOTYPE_KEYS"
proof -
  have "key_of (calculateStressLevel e) \<in> {''Low'', ''Medium'', ''High'', ''undefined''}"
    using EMOTIONS_values [of e]
    by (auto simp: calculateStressLevel_def js_get_def key_of_def split: option.splits)
  then show ?thesis by (rule stress_values_safe)
qed

lemma escalate_safe: "escalate overall (stressFactor_or_Medium e) \<notin> set OBJECT_PROTOTYPE_KEYS"
proof -
  have "stressFactor_or_Medium e \<in> {''Low'', ''Medium'', ''High''}"
    using EMOTIONS_values [of e]
    by (auto simp: stressFactor_or_Medium_def js_get_def split: option.splits)
  then have "escalate overall (stressFactor_or_Medium e) \<in> {''Low'', ''Medium'', ''High'', ''undefined''}"
    by (auto simp: escalate_def)
  then show ?thesis by (rule stress_values_safe)
qed

lemma enriched_fallback:
  "\<exists>u t. reliefUrgency (detectClientSideFallback env) = Some (Num u) \<and> 1 \<le> u \<and> u \<le> 10
     \<and> stressTrends (detectClientSideFallback env) = Some t"
proof -
  obtain emo ps where d: "detectEmotionClientSide (analyzeImageData (imageLoad env)) (random env) = (emo, ps)"
    by (cases "detectEmotionClientSide (analyzeImageData (imageLoad env)) (random env)")
  obtain e b f where c: "calculateFacialFeatures (calculateStressLevel emo) (analyzeImageData (imageLoad env))
      (\<lambda>i. random env (7 + i)) = (e, b, f)" by (metis prod_cases3)
  have "\<exists>i. e = js_index FEATURE_LEVELS i" "\<exists>i. b = js_index FEATURE_LEVELS i" "\<exists>i. f = js_index FEATURE_LEVELS i"
    using c by (auto simp: calculateFacialFeatures_def Let_def split: if_splits prod.splits)
  then have k: "key_of e \<notin> set OBJECT_PROTOTYPE_KEYS" "key_of b \<notin> set OBJECT_PROTOTYPE_KEYS"
    "key_of f \<notin> set OBJECT_PROTOTYPE_KEYS" using feature_key_safe by auto
  from calculateReliefUrgency_range [OF calculateStressLevel_safe k, of emo emo]
  show ?thesis by (simp add: detectClientSideFallback_def d c Let_def)
qed

lemma enriched_processDetections:
  "\<exists>u t. reliefUrgency (processDetections env d ds) = Some (Num u) \<and> 1 \<le> u \<and> u \<le> 10
     \<and> stressTrends (processDetections env d ds) = Some t"
proof -
  obtain emo m where s: "dominant (fst (dominant (''Neutral'', 0) (expression_percentages (face_expressions d))), 0)
      (adjust (face_analysis d) (expression_percentages (face_expressions d))) = (emo, m)"
    by (metis surj_pair)
  have k: "key_of (level_of_score x) \<notin> set OBJECT_PROTOTYPE_KEYS" for x
    by (simp add: level_of_score_def feature_key_safe)
  from calculateReliefUrgency_range [OF escalate_safe k k k]
  show ?thesis by (simp add: processDetections_def s Let_def)
qed

lemma enriched_client:
  "\<exists>u t. reliefUrgency (fst (detectClientSide env st)) = Some (Num u) \<and> 1 \<le> u \<and> u \<le> 10
     \<and> stressTrends (fst (detectClientSide env st)) = Some t"
proof -
  have "fst (detectClientSide env st) = detectClientSideFallback env
      \<or> (\<exists>d ds. fst (detectClientSide env st) = processDetections env d ds)"
    by (auto simp: detectClientSide_def detectWithFaceApi_def Let_def
        split: option.splits faceapi_run.splits list.splits)
  then show ?thesis using enriched_fallback [of env] enriched_processDetections [of env] by metis
qed

text \<open>
  Claim C1 on the backend path. With an image supplied and the backend available, a
  successful response of the backend is returned as \<^verbatim>\<open>detectWithBackend\<close> builds it, with the
  user attached: it has neither \<open>reliefUrgency\<close> nor \<open>stressTrends\<close>. The results of the
  landmark analyzer and of the pixel heuristic have both, the urgency between 1 and 10.
\<close>

theorem detectStress_backend_not_enriched:
  "image_supplied example_env
   \<and> (\<exists>r st'. detectStress example_env (initial_state\<lparr>backendAvailable := Some True\<rparr>) = (Inr r, st')
        \<and> detectionMethod r = CNN_BACKEND
        \<and> reliefUrgency r = None
        \<and> stressTrends r = None)
   \<and> (\<exists>u t. reliefUrgency (fst (detectClientSide env st)) = Some (Num u) \<and> 1 \<le> u \<and> u \<le> 10
        \<and> stressTrends (fst (detectClientSide env st)) = Some t)"
proof -
  have "image_supplied example_env" by (simp add: image_supplied_def example_env_def)
  moreover have "\<exists>r st'. detectStress example_env (initial_state\<lparr>backendAvailable := Some True\<rparr>) = (Inr r, st')
        \<and> detectionMethod r = CNN_BACKEND \<and> reliefUrgency r = None \<and> stressTrends r = None"
    by (simp add: detectStress_def image_supplied_def example_env_def initial_state_def
        detectWithBackend_def response_ok_def example_response_def add_user_info_def
        example_storage_def Let_def)
  ultimately show ?thesis using enriched_client [of env st] by blast
qed

end
